theory Spec2Isabelle
  imports Main "HOL-Library.AList" "HOL-Library.Sublist"
begin

section \<open>Strings\<close>

text \<open>
  A JavaScript string is a sequence of UTF-16 code units and \<open>s.length\<close> counts them.
  The model uses \<^typ>\<open>string\<close>: a list of code units below 256, whose \<^const>\<open>length\<close>
  is the JavaScript length. The string methods the agents call are written out below for
  that range.
\<close>

fun startsWith :: "string \<Rightarrow> string \<Rightarrow> bool" where
  "startsWith s [] = True"
| "startsWith [] (p # ps) = False"
| "startsWith (c # cs) (p # ps) = (c = p \<and> startsWith cs ps)"

fun includes_js :: "string \<Rightarrow> string \<Rightarrow> bool" where
  "includes_js [] sub = (sub = [])"
| "includes_js (c # cs) sub = (startsWith (c # cs) sub \<or> includes_js cs sub)"

fun split_from :: "string \<Rightarrow> string \<Rightarrow> string list" where
  "split_from acc [] = [rev acc]"
| "split_from acc (c # cs) =
     (if c = CHR 0x0A then rev acc # split_from [] cs else split_from (c # acc) cs)"

definition split_lines :: "string \<Rightarrow> string list" where
  \<comment> \<open>\<open>s.split('\n')\<close>\<close>
  "split_lines s = split_from [] s"

fun join :: "string \<Rightarrow> string list \<Rightarrow> string" where
  "join sep [] = []"
| "join sep [x] = x"
| "join sep (x # y # ys) = x @ sep @ join sep (y # ys)"

definition is_upper :: "char \<Rightarrow> bool" where
  "is_upper c = (let n = (of_char c :: nat) in
     (65 \<le> n \<and> n \<le> 90) \<or> (192 \<le> n \<and> n \<le> 222 \<and> n \<noteq> 215))"

definition lower_char :: "char \<Rightarrow> char" where
  \<comment> \<open>an upper-case letter and its lower-case form differ in bit 5 (0x20)\<close>
  "lower_char c =
     (if is_upper c
      then (case c of Char b0 b1 b2 b3 b4 b5 b6 b7 \<Rightarrow> Char b0 b1 b2 b3 b4 True b6 b7)
      else c)"

definition toLowerCase :: "string \<Rightarrow> string" where
  "toLowerCase s = map lower_char s"

definition is_space :: "char \<Rightarrow> bool" where
  \<comment> \<open>white space and line terminators below 256: TAB, LF, VT, FF, CR, SP, NBSP\<close>
  "is_space c = (let n = (of_char c :: nat) in
     n = 9 \<or> n = 10 \<or> n = 11 \<or> n = 12 \<or> n = 13 \<or> n = 32 \<or> n = 160)"

definition trim :: "string \<Rightarrow> string" where
  "trim s = rev (dropWhile is_space (rev (dropWhile is_space s)))"

definition slice_1_m1 :: "'a list \<Rightarrow> 'a list" where
  \<comment> \<open>\<open>xs.slice(1, -1)\<close>\<close>
  "slice_1_m1 xs = drop 1 (butlast xs)"

definition digit_char :: "nat \<Rightarrow> char" where
  "digit_char d = ''0123456789'' ! (d mod 10)"

function show_nat :: "nat \<Rightarrow> string" where
  "show_nat n = (if n < 10 then [digit_char n] else show_nat (n div 10) @ [digit_char n])"
  by pat_completeness auto
termination
  by (relation "measure id") auto

definition or_else :: "string option \<Rightarrow> string \<Rightarrow> string" where
  \<comment> \<open>\<open>x || d\<close> for a string \<open>x\<close> that may be undefined: undefined and the empty string
      are falsy\<close>
  "or_else x d = (case x of None \<Rightarrow> d | Some s \<Rightarrow> if s = [] then d else s)"

definition template :: "string option \<Rightarrow> string" where
  \<comment> \<open>what a template literal prints for a string that may be undefined\<close>
  "template x = (case x of None \<Rightarrow> ''undefined'' | Some s \<Rightarrow> s)"

section \<open>Data model (shared/schema.ts, AgentOrchestrator.ts, gemini.ts)\<close>

record AgentConfig =
  agent_name :: string
  agent_description :: string
  dependencies :: "string list"

text \<open>
  The project configuration is stored as JSON. The model covers the objects the set-up
  form posts: string fields and a list of feature names, each of which may be absent.
\<close>

record ProjectConfig =
  cfg_description :: "string option"
  cfg_projectName :: "string option"
  cfg_stack :: "string option"
  cfg_database :: "string option"
  cfg_features :: "string list option"

record AIResponse =
  ai_content :: string
  ai_success :: bool
  ai_error :: "string option"

record GenFile =
  path :: string
  content :: string
  language :: "string option"

record InsertProjectFile = GenFile +
  file_projectId :: string
  file_size :: nat

record ProjectFile = InsertProjectFile +
  file_id :: string
  file_createdAt :: nat

datatype level = Info | Warn | Error | Success

record InsertAgentLog =
  log_projectId :: string
  agentName :: string
  log_level :: level
  message :: string
  metadata :: "string option"

record AgentLog = InsertAgentLog +
  log_id :: string
  log_timestamp :: nat

text \<open>What the text heuristics of the stages return.\<close>

record Structured =
  st_features :: "string list"
  st_tables :: "string list"
  st_apis :: "string list"
  st_components :: "string list"

record FrontendArchitecture =
  fa_components :: nat
  fa_hooks :: nat
  fa_routes :: nat
  fa_apiCalls :: nat

record BackendArchitecture =
  ba_routes :: nat
  ba_middleware :: nat
  ba_models :: nat
  ba_controllers :: nat

text \<open>
  \<open>agentOutputs\<close> is a record from stage names to values of any type. The values stored in it are the output
  objects the stages build, one constructor per object shape. The Deployment stage is not
  part of the sources at hand; its output is kept as an opaque value.
\<close>

datatype stage_output =
    RequirementOutput string Structured ProjectConfig
  | FrontendOutput string nat FrontendArchitecture
  | BackendSkipped string string
  | BackendOutput string nat BackendArchitecture "string list"
  | ValidatorOutput string "string list" "string list" string "GenFile list option" bool
  | DeploymentOutput string

text \<open>
  Property reads on an output object; a property the object does not have reads as
  undefined (\<^const>\<open>None\<close>).
\<close>

fun prop_specification :: "stage_output \<Rightarrow> string option" where
  "prop_specification (RequirementOutput spec structured config) = Some spec"
| "prop_specification _ = None"

fun prop_codeGenerated :: "stage_output \<Rightarrow> string option" where
  "prop_codeGenerated (FrontendOutput code n arch) = Some code"
| "prop_codeGenerated (BackendOutput code n arch eps) = Some code"
| "prop_codeGenerated _ = None"

fun prop_type :: "stage_output \<Rightarrow> string option" where
  "prop_type (BackendSkipped ty msg) = Some ty"
| "prop_type _ = None"

fun prop_isProductionReady :: "stage_output \<Rightarrow> bool option" where
  "prop_isProductionReady (ValidatorOutput report crit minor score fixes ready) = Some ready"
| "prop_isProductionReady _ = None"

fun prop_fixes :: "stage_output \<Rightarrow> GenFile list option" where
  "prop_fixes (ValidatorOutput report crit minor score fx ready) = fx"
| "prop_fixes _ = None"

record AgentResult =
  success :: bool
  res_output :: "stage_output option"
  error :: "string option"
  files :: "GenFile list option"

record ErrorEntry =
  err_agent :: string
  err_error :: string
  err_timestamp :: nat

text \<open>
  The two \<open>Record\<close> fields of the state are association lists in insertion order; a value
  of \<open>agentOutputs\<close> is \<^const>\<open>None\<close> when the key holds undefined.
\<close>

record AgentState =
  currentAgent :: "string option"
  completedAgents :: "string list"
  agentProgress :: "(string \<times> nat) list"
  agentOutputs :: "(string \<times> stage_output option) list"
  errors :: "ErrorEntry list"

record Project =
  project_id :: string
  project_name :: string
  project_description :: string
  config :: ProjectConfig
  status :: string
  state :: "AgentState option"
  createdAt :: nat
  updatedAt :: nat

record InsertProject =
  ins_name :: string
  ins_description :: string
  ins_config :: ProjectConfig

text \<open>The requests sent to the generation service, by the values their prompts print.\<close>

record CodeToValidate =
  ctv_frontend :: string
  ctv_backend :: string
  hasBackend :: bool

datatype request =
    RequirementPrompt ProjectConfig
  | FrontendPrompt string ProjectConfig
  | BackendPrompt string ProjectConfig
  | ValidationPrompt CodeToValidate
  | FixPrompt "string list" string
  | OtherPrompt string string

datatype event =
    LogEvent InsertAgentLog
  | ProgressEvent string nat
  | ProjectStarted string
  | AgentStarted string string
  | AgentCompleted string string
  | AgentError string string string
  | ProjectCompleted string
  | ProjectPaused string
  | ProjectResumed string
  | ProjectError string string

section \<open>The world of a run\<close>

text \<open>
  One value holds everything the server process mutates: the three maps of \<open>MemStorage\<close>
  (a JavaScript \<open>Map\<close> keeps its keys in insertion order and \<open>set\<close> on a present key
  replaces the value in place, which is \<^const>\<open>AList.update\<close>), the events emitted on the
  orchestrator so far, the requests sent to the generation service so far, and how often
  \<open>randomUUID()\<close> and \<open>new Date()\<close> have been evaluated.
\<close>

record world =
  projects :: "(string \<times> Project) list"
  agentLogs :: "(string \<times> AgentLog) list"
  projectFiles :: "(string \<times> ProjectFile) list"
  emitted :: "event list"
  requests :: "request list"
  uuids :: nat
  ticks :: nat

definition MemStorage_new :: world where
  "MemStorage_new =
     \<lparr>projects = [], agentLogs = [], projectFiles = [], emitted = [], requests = [],
      uuids = 0, ticks = 0\<rparr>"

text \<open>
  What a run does not determine is read from an environment: the reply of the generation
  service to the n-th request of the process, the n-th identifier drawn, the n-th reading
  of the clock (milliseconds; the model keeps the number where the source formats it),
  and the text heuristics of the Requirement, Frontend and Backend stages, which turn a
  reply into files and counts and are pure functions of their arguments. Of
  \<open>parseCodeIntoFiles\<close> the environment has the loop over the code blocks of the reply and
  the contents of the files that \<open>addEssentialFiles\<close> and \<open>addEssentialBackendFiles\<close> add;
  which of them are added, and when adding one throws, is modelled below.
\<close>

datatype action = LogAction level string | ProgressAction nat | GenerateAction request

record env =
  gemini :: "nat \<Rightarrow> request \<Rightarrow> AIResponse"
  randomUUID :: "nat \<Rightarrow> string"
  clock :: "nat \<Rightarrow> nat"
  parseRequirements :: "string \<Rightarrow> Structured"
  frontend_codeBlockFiles :: "string \<Rightarrow> GenFile list"
  frontend_appTsx :: "string \<Rightarrow> string"
  frontend_packageJson :: "string \<Rightarrow> string"
  frontend_extractArchitectureInfo :: "string \<Rightarrow> FrontendArchitecture"
  backend_codeBlockFiles :: "string \<Rightarrow> GenFile list"
  backend_indexTs :: string
  backend_packageJson :: "string \<Rightarrow> string"
  backend_envExample :: string
  backend_extractArchitectureInfo :: "string \<Rightarrow> BackendArchitecture"
  backend_extractEndpoints :: "string \<Rightarrow> string list"
  deployment :: "string \<Rightarrow> ProjectConfig \<Rightarrow> (string \<times> stage_output option) list \<Rightarrow> world
                   \<Rightarrow> action list \<times> (string + AgentResult)"

definition emit :: "event \<Rightarrow> world \<Rightarrow> world" where
  "emit e w = w\<lparr>emitted := emitted w @ [e]\<rparr>"

definition generateContent :: "env \<Rightarrow> request \<Rightarrow> world \<Rightarrow> AIResponse \<times> world" where
  "generateContent E req w =
     (gemini E (length (requests w)) req, w\<lparr>requests := requests w @ [req]\<rparr>)"

subsection \<open>MemStorage\<close>

definition getProject :: "string \<Rightarrow> world \<Rightarrow> Project option" where
  "getProject pid w = map_of (projects w) pid"

definition createProject :: "env \<Rightarrow> InsertProject \<Rightarrow> world \<Rightarrow> Project \<times> world" where
  "createProject E ins w =
     (let pid = randomUUID E (uuids w);
          now = clock E (ticks w);
          project = \<lparr>project_id = pid, project_name = ins_name ins,
                     project_description = ins_description ins, config = ins_config ins,
                     status = ''pending'', state = None, createdAt = now, updatedAt = now\<rparr>
      in (project, w\<lparr>projects := AList.update pid project (projects w),
                      uuids := Suc (uuids w), ticks := Suc (ticks w)\<rparr>))"

definition updateProjectStatus :: "env \<Rightarrow> string \<Rightarrow> string \<Rightarrow> world \<Rightarrow> world" where
  "updateProjectStatus E pid s w =
     (case map_of (projects w) pid of
        None \<Rightarrow> w
      | Some project \<Rightarrow>
          w\<lparr>projects :=
              AList.update pid (project\<lparr>status := s, updatedAt := clock E (ticks w)\<rparr>) (projects w),
            ticks := Suc (ticks w)\<rparr>)"

definition updateProjectState :: "env \<Rightarrow> string \<Rightarrow> AgentState \<Rightarrow> world \<Rightarrow> world" where
  "updateProjectState E pid st w =
     (case map_of (projects w) pid of
        None \<Rightarrow> w
      | Some project \<Rightarrow>
          w\<lparr>projects :=
              AList.update pid (project\<lparr>state := Some st, updatedAt := clock E (ticks w)\<rparr>)
                (projects w),
            ticks := Suc (ticks w)\<rparr>)"

definition addAgentLog :: "env \<Rightarrow> InsertAgentLog \<Rightarrow> world \<Rightarrow> world" where
  "addAgentLog E insertLog w =
     (let lid = randomUUID E (uuids w);
          entry = \<lparr>log_projectId = log_projectId insertLog, agentName = agentName insertLog,
                   log_level = log_level insertLog, message = message insertLog,
                   metadata = (if metadata insertLog = Some [] then None else metadata insertLog),
                   log_id = lid, log_timestamp = clock E (ticks w)\<rparr>
      in w\<lparr>agentLogs := AList.update lid entry (agentLogs w),
           uuids := Suc (uuids w), ticks := Suc (ticks w)\<rparr>)"

definition addProjectFile :: "env \<Rightarrow> InsertProjectFile \<Rightarrow> world \<Rightarrow> world" where
  "addProjectFile E insertFile w =
     (let fid = randomUUID E (uuids w);
          file = \<lparr>path = path insertFile, content = content insertFile,
                  language = (if language insertFile = Some [] then None else language insertFile),
                  file_projectId = file_projectId insertFile, file_size = file_size insertFile,
                  file_id = fid, file_createdAt = clock E (ticks w)\<rparr>
      in w\<lparr>projectFiles := AList.update fid file (projectFiles w),
           uuids := Suc (uuids w), ticks := Suc (ticks w)\<rparr>)"

definition updateProjectFile :: "string \<Rightarrow> string \<Rightarrow> world \<Rightarrow> world" where
  "updateProjectFile fid c w =
     (case map_of (projectFiles w) fid of
        None \<Rightarrow> w
      | Some file \<Rightarrow>
          w\<lparr>projectFiles :=
              AList.update fid (file\<lparr>content := c, file_size := length c\<rparr>) (projectFiles w)\<rparr>)"

subsection \<open>BaseAgent\<close>

definition agent_log :: "env \<Rightarrow> string \<Rightarrow> string \<Rightarrow> level \<Rightarrow> string \<Rightarrow> world \<Rightarrow> world" where
  "agent_log E name pid lvl msg w =
     (let logEntry = \<lparr>log_projectId = pid, agentName = name, log_level = lvl, message = msg,
                      metadata = None\<rparr>
      in emit (LogEvent logEntry) (addAgentLog E logEntry w))"

definition updateProgress :: "string \<Rightarrow> nat \<Rightarrow> world \<Rightarrow> world" where
  "updateProgress name progress w = emit (ProgressEvent name progress) w"

definition failed :: "string \<Rightarrow> AgentResult" where
  \<comment> \<open>\<open>{ success: false, error: error.message }\<close>\<close>
  "failed msg = \<lparr>success = False, res_output = None, error = Some msg, files = None\<rparr>"

definition lookup_output :: "(string \<times> stage_output option) list \<Rightarrow> string \<Rightarrow> stage_output option" where
  \<comment> \<open>\<open>previousOutputs.Name\<close>: undefined when the key is absent or holds undefined\<close>
  "lookup_output previousOutputs k =
     (case map_of previousOutputs k of Some (Some v) \<Rightarrow> Some v | _ \<Rightarrow> None)"

section \<open>The stages\<close>

text \<open>
  Each \<open>execute\<close> runs inside one \<open>try\<close> whose \<open>catch\<close> logs the message and returns
  \<open>{ success: false, error }\<close>; the model returns that result at the place of the throw.
\<close>

definition caught :: "env \<Rightarrow> string \<Rightarrow> string \<Rightarrow> string \<Rightarrow> string \<Rightarrow> world \<Rightarrow> AgentResult \<times> world" where
  "caught E name pid what msg w = (failed msg, agent_log E name pid Error (what @ msg) w)"

subsection \<open>RequirementAgent.ts\<close>

definition RequirementAgent_execute ::
  "env \<Rightarrow> string \<Rightarrow> string \<Rightarrow> ProjectConfig \<Rightarrow> (string \<times> stage_output option) list \<Rightarrow> world
     \<Rightarrow> AgentResult \<times> world" where
  "RequirementAgent_execute E name pid cfg previousOutputs w =
     (let w1 = agent_log E name pid Info ''Starting requirement analysis...'' w;
          w2 = updateProgress name 10 w1;
          w3 = updateProgress name 50 w2;
          (response, w4) = generateContent E (RequirementPrompt cfg) w3
      in if \<not> ai_success response
         then caught E name pid ''Requirement analysis failed: ''
                (or_else (ai_error response) ''Failed to analyze requirements'') w4
         else
           let w5 = updateProgress name 80 w4;
               structuredRequirements = parseRequirements E (ai_content response);
               w6 = agent_log E name pid Success ''Requirements analysis completed successfully'' w5;
               w7 = updateProgress name 100 w6
           in (\<lparr>success = True,
                res_output = Some (RequirementOutput (ai_content response) structuredRequirements cfg),
                error = None, files = None\<rparr>, w7))"

subsection \<open>FrontendAgent.ts\<close>

definition reading_toLowerCase :: string where
  \<comment> \<open>the message of the \<open>TypeError\<close> that \<open>config.projectName.toLowerCase()\<close> throws when
      \<open>config.projectName\<close> is undefined\<close>
  "reading_toLowerCase =
     ''Cannot read properties of undefined (reading '' @ [CHR 0x27] @ ''toLowerCase''
       @ [CHR 0x27] @ '')''"

definition addEssentialFiles :: "env \<Rightarrow> GenFile list \<Rightarrow> ProjectConfig \<Rightarrow> string + GenFile list" where
  \<comment> \<open>\<open>Inl\<close> is the message of the error thrown, \<open>Inr\<close> the array as the call leaves it\<close>
  "addEssentialFiles E fs cfg =
     (let existingPaths = map path fs;
          fs1 = (if \<not> list_ex (\<lambda>p. includes_js p ''App.'') existingPaths
                 then fs @ [\<lparr>path = ''/src/App.tsx'',
                              content = frontend_appTsx E (template (cfg_projectName cfg)),
                              language = Some ''typescript''\<rparr>]
                 else fs)
      in if \<not> list_ex (\<lambda>p. includes_js p ''package.json'') existingPaths
         then (case cfg_projectName cfg of
                 None \<Rightarrow> Inl reading_toLowerCase
               | Some projectName \<Rightarrow>
                   Inr (fs1 @ [\<lparr>path = ''/package.json'',
                                 content = frontend_packageJson E projectName,
                                 language = Some ''json''\<rparr>]))
         else Inr fs1)"

definition frontend_parseCodeIntoFiles ::
  "env \<Rightarrow> string \<Rightarrow> ProjectConfig \<Rightarrow> string + GenFile list" where
  "frontend_parseCodeIntoFiles E content_text cfg =
     addEssentialFiles E (frontend_codeBlockFiles E content_text) cfg"

definition FrontendAgent_execute ::
  "env \<Rightarrow> string \<Rightarrow> string \<Rightarrow> ProjectConfig \<Rightarrow> (string \<times> stage_output option) list \<Rightarrow> world
     \<Rightarrow> AgentResult \<times> world" where
  "FrontendAgent_execute E name pid cfg previousOutputs w =
     (let w1 = agent_log E name pid Info ''Starting frontend development...'' w;
          w2 = updateProgress name 10 w1
      in case lookup_output previousOutputs ''Requirement'' of
           None \<Rightarrow> caught E name pid ''Frontend development failed: ''
                     ''Requirements not found from previous agent'' w2
         | Some requirements \<Rightarrow>
             let w3 = updateProgress name 40 w2;
                 (response, w4) =
                    generateContent E (FrontendPrompt (template (prop_specification requirements)) cfg) w3
             in if \<not> ai_success response
                then caught E name pid ''Frontend development failed: ''
                       (or_else (ai_error response) ''Failed to generate frontend code'') w4
                else
                  let w5 = updateProgress name 70 w4
                  in case frontend_parseCodeIntoFiles E (ai_content response) cfg of
                       Inl msg \<Rightarrow> caught E name pid ''Frontend development failed: '' msg w5
                     | Inr fs \<Rightarrow>
                         let w6 = agent_log E name pid Success
                                    (''Frontend development completed. Generated ''
                                       @ show_nat (length fs) @ '' files.'') w5;
                             w7 = updateProgress name 100 w6
                         in (\<lparr>success = True,
                              res_output = Some (FrontendOutput (ai_content response) (length fs)
                                             (frontend_extractArchitectureInfo E (ai_content response))),
                              error = None, files = Some fs\<rparr>, w7))"

subsection \<open>BackendAgent.ts\<close>

definition backendKeywords :: "string list" where
  "backendKeywords =
     [''database'', ''api'', ''authentication'', ''auth'', ''login'', ''register'',
      ''server'', ''backend'', ''storage'', ''persistence'', ''user management'']"

definition checkIfBackendNeeded :: "ProjectConfig \<Rightarrow> stage_output \<Rightarrow> bool" where
  "checkIfBackendNeeded cfg requirements =
     (let description = toLowerCase (or_else (cfg_description cfg) []);
          spec = toLowerCase (or_else (prop_specification requirements) [])
      in (list_ex (\<lambda>keyword. includes_js description keyword \<or> includes_js spec keyword)
            backendKeywords
          \<or> cfg_database cfg \<noteq> Some ''none'')
         \<or> (case cfg_features cfg of None \<Rightarrow> False | Some fs \<Rightarrow> 0 < length fs))"

definition addEssentialBackendFiles ::
  "env \<Rightarrow> GenFile list \<Rightarrow> ProjectConfig \<Rightarrow> string + GenFile list" where
  \<comment> \<open>\<open>Inl\<close> is the message of the error thrown, \<open>Inr\<close> the array as the call leaves it\<close>
  "addEssentialBackendFiles E fs cfg =
     (let existingPaths = map path fs;
          fs1 = (if \<not> list_ex (\<lambda>p. (includes_js p ''server.'' \<or> includes_js p ''index.'')
                                       \<or> includes_js p ''app.'') existingPaths
                 then fs @ [\<lparr>path = ''/server/index.ts'', content = backend_indexTs E,
                              language = Some ''typescript''\<rparr>]
                 else fs);
          envExample = (\<lambda>fs2. if \<not> list_ex (\<lambda>p. includes_js p ''.env'') existingPaths
                              then fs2 @ [\<lparr>path = ''/.env.example'',
                                            content = backend_envExample E,
                                            language = Some ''text''\<rparr>]
                              else fs2)
      in if \<not> list_ex (\<lambda>p. includes_js p ''package.json'') existingPaths
         then (case cfg_projectName cfg of
                 None \<Rightarrow> Inl reading_toLowerCase
               | Some projectName \<Rightarrow>
                   Inr (envExample
                          (fs1 @ [\<lparr>path = ''/package.json'',
                                    content = backend_packageJson E projectName,
                                    language = Some ''json''\<rparr>])))
         else Inr (envExample fs1))"

definition backend_parseCodeIntoFiles ::
  "env \<Rightarrow> string \<Rightarrow> ProjectConfig \<Rightarrow> string + GenFile list" where
  "backend_parseCodeIntoFiles E content_text cfg =
     addEssentialBackendFiles E (backend_codeBlockFiles E content_text) cfg"

definition BackendAgent_execute ::
  "env \<Rightarrow> string \<Rightarrow> string \<Rightarrow> ProjectConfig \<Rightarrow> (string \<times> stage_output option) list \<Rightarrow> world
     \<Rightarrow> AgentResult \<times> world" where
  "BackendAgent_execute E name pid cfg previousOutputs w =
     (let w1 = agent_log E name pid Info ''Starting backend development...'' w;
          w2 = updateProgress name 10 w1
      in case lookup_output previousOutputs ''Requirement'' of
           None \<Rightarrow> caught E name pid ''Backend development failed: ''
                     ''Requirements not found from previous agent'' w2
         | Some requirements \<Rightarrow>
             if \<not> checkIfBackendNeeded cfg requirements
             then (\<lparr>success = True,
                     res_output = Some (BackendSkipped ''frontend-only'' ''No backend required''),
                     error = None, files = None\<rparr>,
                   agent_log E name pid Info ''Backend not required for this project type'' w2)
             else
               let w3 = updateProgress name 40 w2;
                   (response, w4) =
                      generateContent E (BackendPrompt (template (prop_specification requirements)) cfg) w3
               in if \<not> ai_success response
                  then caught E name pid ''Backend development failed: ''
                         (or_else (ai_error response) ''Failed to generate backend code'') w4
                  else
                    let w5 = updateProgress name 70 w4
                    in case backend_parseCodeIntoFiles E (ai_content response) cfg of
                         Inl msg \<Rightarrow> caught E name pid ''Backend development failed: '' msg w5
                       | Inr fs \<Rightarrow>
                           let w6 = agent_log E name pid Success
                                      (''Backend development completed. Generated ''
                                         @ show_nat (length fs) @ '' files.'') w5;
                               w7 = updateProgress name 100 w6
                           in (\<lparr>success = True,
                                res_output = Some (BackendOutput (ai_content response) (length fs)
                                               (backend_extractArchitectureInfo E (ai_content response))
                                               (backend_extractEndpoints E (ai_content response))),
                                error = None, files = Some fs\<rparr>, w7))"

subsection \<open>ValidatorAgent.ts\<close>

record ValidationResults =
  criticalIssues :: "string list"
  minorIssues :: "string list"
  qualityScore :: string

datatype report_section = NoSection | CriticalSection | MinorSection

definition is_digit :: "char \<Rightarrow> bool" where
  "is_digit c = (let n = (of_char c :: nat) in 48 \<le> n \<and> n \<le> 57)"

definition scoreMatch :: "string \<Rightarrow> string option" where
  \<comment> \<open>\<open>line.match(/(\d+(?:\.\d+)?)/)\<close>: the first run of digits, with a fraction when a
      dot and a digit follow it\<close>
  "scoreMatch line =
     (let r = dropWhile (\<lambda>c. \<not> is_digit c) line;
          ds = takeWhile is_digit r;
          rest = dropWhile is_digit r
      in if r = [] then None
         else (case rest of
                 [] \<Rightarrow> Some ds
               | c # rest' \<Rightarrow>
                   if c = CHR ''.'' \<and> takeWhile is_digit rest' \<noteq> []
                   then Some (ds @ [c] @ takeWhile is_digit rest')
                   else Some ds))"

text \<open>
  \<open>qualityScore\<close> is kept as the decimal text \<open>parseFloat\<close> is applied to, \<open>7\<close> by default.
  The third bullet the source tests for has a code unit above 255 and so starts no string
  of the model.
\<close>

definition parse_line ::
  "report_section \<times> ValidationResults \<Rightarrow> string \<Rightarrow> report_section \<times> ValidationResults" where
  "parse_line acc line =
     (let currentSection = fst acc;
          results = snd acc;
          lower = toLowerCase line;
          (sec1, results1) =
            (if (includes_js lower ''critical'' \<or> includes_js lower ''error'')
                  \<or> includes_js lower ''security''
             then (CriticalSection, results)
             else if (includes_js lower ''minor'' \<or> includes_js lower ''improvement'')
                  \<or> includes_js lower ''suggestion''
             then (MinorSection, results)
             else if includes_js lower ''score'' \<or> includes_js lower ''rating''
             then (case scoreMatch line of
                     None \<Rightarrow> (currentSection, results)
                   | Some m \<Rightarrow> (currentSection, results\<lparr>qualityScore := m\<rparr>))
             else (currentSection, results))
      in if startsWith (trim line) ''-'' \<or> startsWith (trim line) ''*''
         then
           let issue = trim (drop 1 (trim line))
           in if 10 < length issue
              then (if sec1 = CriticalSection
                    then (sec1, results1\<lparr>criticalIssues := criticalIssues results1 @ [issue]\<rparr>)
                    else if sec1 = MinorSection
                    then (sec1, results1\<lparr>minorIssues := minorIssues results1 @ [issue]\<rparr>)
                    else (sec1, results1))
              else (sec1, results1)
         else (sec1, results1))"

definition parseValidationResults :: "string \<Rightarrow> ValidationResults" where
  "parseValidationResults c =
     snd (foldl parse_line
            (NoSection, \<lparr>criticalIssues = [], minorIssues = [], qualityScore = ''7''\<rparr>)
            (split_lines c))"

text \<open>
  \<open>content.match(/```[\s\S]*?```/g)\<close>: the blocks between a fence of three backticks and
  the next fence after it, fences included, found from left to right without overlap. A
  fence that is never closed starts no block, and then no later one does.
\<close>

definition backtick :: char where
  "backtick = CHR 0x60"

fun outside_block :: "string \<Rightarrow> string list"
  and inside_block :: "string \<Rightarrow> string \<Rightarrow> string list" where
  "outside_block (a # b # c # rest) =
     (if a = backtick \<and> b = backtick \<and> c = backtick
      then inside_block [] rest
      else outside_block (b # c # rest))"
| "outside_block [b, c] = []"
| "outside_block [c] = []"
| "outside_block [] = []"
| "inside_block acc (a # b # c # rest) =
     (if a = backtick \<and> b = backtick \<and> c = backtick
      then ([backtick, backtick, backtick] @ rev acc @ [backtick, backtick, backtick])
             # outside_block rest
      else inside_block (a # acc) (b # c # rest))"
| "inside_block acc [b, c] = []"
| "inside_block acc [c] = []"
| "inside_block acc [] = []"

definition codeBlocks :: "string \<Rightarrow> string list" where
  "codeBlocks c = outside_block c"

definition is_alpha :: "char \<Rightarrow> bool" where
  "is_alpha c = (let n = (of_char c :: nat) in (65 \<le> n \<and> n \<le> 90) \<or> (97 \<le> n \<and> n \<le> 122))"

definition is_name_char :: "char \<Rightarrow> bool" where
  \<comment> \<open>\<open>[a-zA-Z0-9_-]\<close>\<close>
  "is_name_char c = (is_alpha c \<or> is_digit c \<or> c = CHR ''_'' \<or> c = CHR ''-'')"

fun match_name :: "string \<Rightarrow> string option" where
  \<comment> \<open>the leftmost match of \<open>/([a-zA-Z0-9_-]+\.[a-zA-Z]+)/\<close>\<close>
  "match_name [] = None"
| "match_name (c # cs) =
     (if is_name_char c
      then (case dropWhile is_name_char (c # cs) of
              [] \<Rightarrow> match_name cs
            | d # rest \<Rightarrow>
                if d = CHR ''.'' \<and> takeWhile is_alpha rest \<noteq> []
                then Some (takeWhile is_name_char (c # cs) @ [d] @ takeWhile is_alpha rest)
                else match_name cs)
      else match_name cs)"

fun match_quoted :: "char \<Rightarrow> string \<Rightarrow> string option" where
  \<comment> \<open>group 1 of the leftmost match of \<open>/q([^q]+)q/\<close> for a quote character \<open>q\<close>\<close>
  "match_quoted q [] = None"
| "match_quoted q (c # cs) =
     (if c = q \<and> takeWhile (\<lambda>x. x \<noteq> q) cs \<noteq> [] \<and> dropWhile (\<lambda>x. x \<noteq> q) cs \<noteq> []
      then Some (takeWhile (\<lambda>x. x \<noteq> q) cs)
      else match_quoted q cs)"

fun first_with_dot :: "string option list \<Rightarrow> string option" where
  "first_with_dot [] = None"
| "first_with_dot (None # ms) = first_with_dot ms"
| "first_with_dot (Some m # ms) = (if includes_js m ''.'' then Some m else first_with_dot ms)"

definition extractFilename :: "string \<Rightarrow> string option" where
  "extractFilename line =
     first_with_dot
       [match_name line, match_quoted backtick line, match_quoted (CHR 0x22) line,
        match_quoted (CHR 0x27) line]"

definition fixed_name :: "nat \<Rightarrow> string \<Rightarrow> string \<times> string" where
  \<comment> \<open>the file name and the language chosen from the first line of block \<open>i\<close>\<close>
  "fixed_name i firstLine =
     (if includes_js firstLine ''.tsx''
      then (case extractFilename firstLine of
              Some f \<Rightarrow> f | None \<Rightarrow> ''Fixed'' @ show_nat (i + 1) @ ''.tsx'', ''typescript'')
      else if includes_js firstLine ''.ts''
      then (case extractFilename firstLine of
              Some f \<Rightarrow> f | None \<Rightarrow> ''Fixed'' @ show_nat (i + 1) @ ''.ts'', ''typescript'')
      else if includes_js firstLine ''.jsx''
      then (case extractFilename firstLine of
              Some f \<Rightarrow> f | None \<Rightarrow> ''Fixed'' @ show_nat (i + 1) @ ''.jsx'', ''javascript'')
      else if includes_js firstLine ''.js''
      then (case extractFilename firstLine of
              Some f \<Rightarrow> f | None \<Rightarrow> ''Fixed'' @ show_nat (i + 1) @ ''.js'', ''javascript'')
      else ([], ''javascript''))"

fun fixed_files :: "nat \<Rightarrow> string list \<Rightarrow> GenFile list" where
  "fixed_files i [] = []"
| "fixed_files i (block # blocks) =
     (case split_lines block of
        [] \<Rightarrow> fixed_files (i + 1) blocks
      | firstLine # others \<Rightarrow>
          (case fixed_name i firstLine of
             (filename, lang) \<Rightarrow>
               if filename \<noteq> []
               then \<lparr>path = ''/src/fixed/'' @ filename,
                     content = join [CHR 0x0A] (slice_1_m1 (firstLine # others)),
                     language = Some lang\<rparr> # fixed_files (i + 1) blocks
               else fixed_files (i + 1) blocks))"

definition parseFixedFiles :: "string \<Rightarrow> GenFile list" where
  "parseFixedFiles c = fixed_files 0 (codeBlocks c)"

definition generateFixes :: "env \<Rightarrow> string list \<Rightarrow> CodeToValidate \<Rightarrow> world \<Rightarrow> GenFile list \<times> world" where
  "generateFixes E issues codeToValidate w =
     (if length issues = 0 then ([], w)
      else
        let (response, w1) = generateContent E (FixPrompt issues (ctv_frontend codeToValidate)) w
        in if ai_success response \<and> ai_content response \<noteq> []
           then (parseFixedFiles (ai_content response), w1)
           else ([], w1))"

definition codeToValidate_of :: "stage_output \<Rightarrow> stage_output option \<Rightarrow> CodeToValidate" where
  "codeToValidate_of frontendOutput backendOutput =
     \<lparr>ctv_frontend = or_else (prop_codeGenerated frontendOutput) [],
      ctv_backend = or_else (Option.bind backendOutput prop_codeGenerated) [],
      hasBackend = (Option.bind backendOutput prop_type \<noteq> Some ''frontend-only'')\<rparr>"

definition ValidatorAgent_execute ::
  "env \<Rightarrow> string \<Rightarrow> string \<Rightarrow> ProjectConfig \<Rightarrow> (string \<times> stage_output option) list \<Rightarrow> world
     \<Rightarrow> AgentResult \<times> world" where
  "ValidatorAgent_execute E name pid cfg previousOutputs w =
     (let w1 = agent_log E name pid Info ''Starting code validation...'' w;
          w2 = updateProgress name 10 w1;
          backendOutput = lookup_output previousOutputs ''Backend''
      in case lookup_output previousOutputs ''Frontend'' of
           None \<Rightarrow> caught E name pid ''Code validation failed: ''
                     ''Frontend output not found from previous agent'' w2
         | Some frontendOutput \<Rightarrow>
             let codeToValidate = codeToValidate_of frontendOutput backendOutput;
                 w3 = updateProgress name 30 w2;
                 (response, w4) = generateContent E (ValidationPrompt codeToValidate) w3
             in if \<not> ai_success response
                then caught E name pid ''Code validation failed: ''
                       (or_else (ai_error response) ''Failed to validate code'') w4
                else
                  let w5 = updateProgress name 70 w4;
                      validationResults = parseValidationResults (ai_content response)
                  in if 0 < length (criticalIssues validationResults)
                     then
                       let w6 = agent_log E name pid Warn
                                  (''Found '' @ show_nat (length (criticalIssues validationResults))
                                     @ '' critical issues that need fixing'') w5;
                           (fixes, w7) =
                              generateFixes E (criticalIssues validationResults) codeToValidate w6;
                           w8 = updateProgress name 90 w7;
                           w9 = agent_log E name pid Success
                                  ''Code validation completed with fixes applied'' w8
                       in (\<lparr>success = True,
                            res_output = Some (ValidatorOutput (ai_content response)
                                           (criticalIssues validationResults)
                                           (minorIssues validationResults)
                                           (qualityScore validationResults) (Some fixes) False),
                            error = None, files = Some fixes\<rparr>, w9)
                     else
                       let w6 = agent_log E name pid Success
                                  ''Code validation passed - no critical issues found'' w5;
                           w7 = updateProgress name 100 w6
                       in (\<lparr>success = True,
                            res_output = Some (ValidatorOutput (ai_content response) []
                                           (minorIssues validationResults)
                                           (qualityScore validationResults) None True),
                            error = None, files = None\<rparr>, w7))"

subsection \<open>DeploymentAgent.ts\<close>

text \<open>
  The Deployment stage is not among the sources at hand. It is a \<open>BaseAgent\<close> like the
  others, so the environment gives, for the arguments of \<open>execute\<close> and the world it
  starts in, the calls it makes on the \<open>BaseAgent\<close> interface and on the generation
  service, in order, and either the result it returns or the message of the error it
  throws.
\<close>

definition perform_action :: "env \<Rightarrow> string \<Rightarrow> string \<Rightarrow> world \<Rightarrow> action \<Rightarrow> world" where
  "perform_action E name pid w a =
     (case a of
        LogAction lvl msg \<Rightarrow> agent_log E name pid lvl msg w
      | ProgressAction n \<Rightarrow> updateProgress name n w
      | GenerateAction req \<Rightarrow> snd (generateContent E req w))"

definition DeploymentAgent_execute ::
  "env \<Rightarrow> string \<Rightarrow> string \<Rightarrow> ProjectConfig \<Rightarrow> (string \<times> stage_output option) list \<Rightarrow> world
     \<Rightarrow> (string + AgentResult) \<times> world" where
  "DeploymentAgent_execute E name pid cfg previousOutputs w =
     (case deployment E pid cfg previousOutputs w of
        (acts, r) \<Rightarrow> (r, foldl (perform_action E name pid) w acts))"

section \<open>The orchestrator (AgentOrchestrator.ts)\<close>

definition agentConfigs :: "AgentConfig list" where
  "agentConfigs =
     [\<lparr>agent_name = ''Requirement'', agent_description = ''Parse user requirements'',
       dependencies = []\<rparr>,
      \<lparr>agent_name = ''Frontend'', agent_description = ''Generate frontend code'',
       dependencies = [''Requirement'']\<rparr>,
      \<lparr>agent_name = ''Backend'', agent_description = ''Generate backend code'',
       dependencies = [''Requirement'']\<rparr>,
      \<lparr>agent_name = ''Validator'', agent_description = ''Validate generated code'',
       dependencies = [''Frontend'', ''Backend'']\<rparr>,
      \<lparr>agent_name = ''Deployment'', agent_description = ''Package for deployment'',
       dependencies = [''Validator'']\<rparr>]"

definition returned :: "AgentResult \<times> world \<Rightarrow> (string + AgentResult) \<times> world" where
  "returned rw = (Inr (fst rw), snd rw)"

definition agents ::
  "env \<Rightarrow> string \<Rightarrow>
     (string \<Rightarrow> ProjectConfig \<Rightarrow> (string \<times> stage_output option) list \<Rightarrow> world
        \<Rightarrow> (string + AgentResult) \<times> world) option" where
  \<comment> \<open>the registry filled by \<open>initializeAgents\<close>\<close>
  "agents E name =
     (if name = ''Requirement''
      then Some (\<lambda>pid cfg prev w. returned (RequirementAgent_execute E ''Requirement'' pid cfg prev w))
      else if name = ''Frontend''
      then Some (\<lambda>pid cfg prev w. returned (FrontendAgent_execute E ''Frontend'' pid cfg prev w))
      else if name = ''Backend''
      then Some (\<lambda>pid cfg prev w. returned (BackendAgent_execute E ''Backend'' pid cfg prev w))
      else if name = ''Validator''
      then Some (\<lambda>pid cfg prev w. returned (ValidatorAgent_execute E ''Validator'' pid cfg prev w))
      else if name = ''Deployment''
      then Some (DeploymentAgent_execute E ''Deployment'')
      else None)"

definition initialState :: AgentState where
  "initialState =
     \<lparr>currentAgent = None, completedAgents = [], agentProgress = [], agentOutputs = [],
      errors = []\<rparr>"

definition now :: "env \<Rightarrow> world \<Rightarrow> nat \<times> world" where
  \<comment> \<open>\<open>new Date()\<close>\<close>
  "now E w = (clock E (ticks w), w\<lparr>ticks := Suc (ticks w)\<rparr>)"

definition in_place :: "string \<Rightarrow> AgentState \<Rightarrow> world \<Rightarrow> world" where
  \<comment> \<open>\<open>MemStorage\<close> keeps the very object it is handed: once \<open>updateProjectState\<close> has
      stored \<open>state\<close>, an assignment to a field of \<open>state\<close> changes the stored project\<close>
  "in_place pid st w =
     (case map_of (projects w) pid of
        None \<Rightarrow> w
      | Some project \<Rightarrow> w\<lparr>projects := AList.update pid (project\<lparr>state := Some st\<rparr>) (projects w)\<rparr>)"

fun save_files :: "env \<Rightarrow> string \<Rightarrow> GenFile list \<Rightarrow> world \<Rightarrow> world" where
  "save_files E pid [] w = w"
| "save_files E pid (file # fs) w =
     save_files E pid fs
       (addProjectFile E
          \<lparr>path = path file, content = content file, language = language file,
           file_projectId = pid, file_size = length (content file)\<rparr> w)"

definition dependenciesMet :: "AgentState \<Rightarrow> AgentConfig \<Rightarrow> bool" where
  "dependenciesMet st agentConfig =
     list_all (\<lambda>dep. dep \<in> set (completedAgents st)) (dependencies agentConfig)"

definition missingDeps :: "AgentState \<Rightarrow> AgentConfig \<Rightarrow> string list" where
  "missingDeps st agentConfig =
     filter (\<lambda>dep. dep \<notin> set (completedAgents st)) (dependencies agentConfig)"

definition record_error :: "env \<Rightarrow> string \<Rightarrow> string \<Rightarrow> AgentState \<Rightarrow> world \<Rightarrow> AgentState \<times> world" where
  \<comment> \<open>\<open>state.errors.push({ agent, error, timestamp: new Date().toISOString() })\<close>\<close>
  "record_error E name msg st w =
     (case now E w of
        (t, w1) \<Rightarrow>
          (st\<lparr>errors := errors st @ [\<lparr>err_agent = name, err_error = msg, err_timestamp = t\<rparr>]\<rparr>, w1))"

definition catch_agent_error ::
  "env \<Rightarrow> string \<Rightarrow> string \<Rightarrow> string \<Rightarrow> AgentState \<Rightarrow> world \<Rightarrow> string option \<times> AgentState \<times> world" where
  \<comment> \<open>the \<open>catch\<close> of the loop body: record, persist, announce and throw again\<close>
  "catch_agent_error E pid name msg st w =
     (case record_error E name msg st w of
        (st1, w1) \<Rightarrow>
          (Some msg, st1, emit (AgentError pid name msg) (updateProjectState E pid st1 w1)))"

definition run_agent ::
  "env \<Rightarrow> string \<Rightarrow> ProjectConfig \<Rightarrow> string \<Rightarrow> AgentState \<Rightarrow> world
     \<Rightarrow> string option \<times> AgentState \<times> world" where
  \<comment> \<open>the loop body from \<open>// Execute agent\<close> on; the first component is the message of the
      error thrown out of the loop, if any\<close>
  "run_agent E pid cfg name st w =
     (let st1 = st\<lparr>currentAgent := Some name\<rparr>;
          w1 = updateProjectState E pid st1 w;
          w2 = emit (AgentStarted pid name) w1
      in case agents E name of
           None \<Rightarrow> (Some (''Agent '' @ name @ '' not found''), st1, w2)
         | Some agent \<Rightarrow>
             (case agent pid cfg (agentOutputs st1) w2 of
                (Inl thrown, w3) \<Rightarrow> catch_agent_error E pid name thrown st1 w3
              | (Inr result, w3) \<Rightarrow>
                  if success result
                  then
                    let st2 = st1\<lparr>completedAgents := completedAgents st1 @ [name],
                                  agentOutputs := AList.update name (res_output result) (agentOutputs st1),
                                  agentProgress := AList.update name 100 (agentProgress st1)\<rparr>;
                        w4 = in_place pid st2 w3;
                        w5 = (case files result of None \<Rightarrow> w4 | Some fs \<Rightarrow> save_files E pid fs w4);
                        w6 = emit (AgentCompleted pid name) w5;
                        st3 = st2\<lparr>currentAgent := None\<rparr>
                    in (None, st3, updateProjectState E pid st3 w6)
                  else
                    (case record_error E name (or_else (error result) ''Unknown error'') st1 w3 of
                       (st2, w4) \<Rightarrow>
                         catch_agent_error E pid name
                           (''Agent '' @ name @ '' failed: '' @ template (error result)) st2 w4)))"

fun run_agents ::
  "env \<Rightarrow> string \<Rightarrow> ProjectConfig \<Rightarrow> AgentConfig list \<Rightarrow> AgentState \<Rightarrow> world
     \<Rightarrow> string option \<times> AgentState \<times> world" where
  \<comment> \<open>the \<open>for\<close> loop over the agent configurations, from the value of \<open>state\<close> and the
      world it is entered with to the message of the error thrown out of it, if any, the
      last value of \<open>state\<close> and the world it leaves\<close>
  "run_agents E pid cfg [] st w = (None, st, w)"
| "run_agents E pid cfg (agentConfig # rest) st w =
     (if agent_name agentConfig \<in> set (completedAgents st)
      then run_agents E pid cfg rest st w
      else if \<not> dependenciesMet st agentConfig
      then (Some (''Agent '' @ agent_name agentConfig @ '' dependencies not met: ''
                    @ join '', '' (missingDeps st agentConfig)), st, w)
      else (case run_agent E pid cfg (agent_name agentConfig) st w of
              (Some thrown, st', w') \<Rightarrow> (Some thrown, st', w')
            | (None, st', w') \<Rightarrow> run_agents E pid cfg rest st' w'))"

definition executeAgentPipeline :: "env \<Rightarrow> string \<Rightarrow> Project \<Rightarrow> world \<Rightarrow> string option \<times> world" where
  "executeAgentPipeline E pid project w =
     (case run_agents E pid (config project) agentConfigs
             (case state project of None \<Rightarrow> initialState | Some st \<Rightarrow> st) w of
        (Some thrown, st', w') \<Rightarrow> (Some thrown, w')
      | (None, st', w') \<Rightarrow>
          (None, emit (ProjectCompleted pid) (updateProjectStatus E pid ''completed'' w')))"

definition stored :: "string \<Rightarrow> Project \<Rightarrow> world \<Rightarrow> Project" where
  \<comment> \<open>\<open>getProject\<close> returns the stored object itself, so the fields of \<open>project\<close> are read
      from the store as it is at the time of the read\<close>
  "stored pid project w = (case getProject pid w of None \<Rightarrow> project | Some p \<Rightarrow> p)"

definition startProject :: "env \<Rightarrow> string \<Rightarrow> world \<Rightarrow> world" where
  "startProject E pid w =
     (case getProject pid w of
        None \<Rightarrow>
          emit (ProjectError pid ''Project not found'') (updateProjectStatus E pid ''error'' w)
      | Some project \<Rightarrow>
          let w1 = updateProjectStatus E pid ''running'' w;
              w2 = updateProjectState E pid initialState w1;
              w3 = emit (ProjectStarted pid) w2
          in (case executeAgentPipeline E pid (stored pid project w3) w3 of
                (None, w4) \<Rightarrow> w4
              | (Some thrown, w4) \<Rightarrow>
                  emit (ProjectError pid thrown) (updateProjectStatus E pid ''error'' w4)))"

definition pauseProject :: "env \<Rightarrow> string \<Rightarrow> world \<Rightarrow> world" where
  "pauseProject E pid w = emit (ProjectPaused pid) (updateProjectStatus E pid ''paused'' w)"

definition resumeProject :: "env \<Rightarrow> string \<Rightarrow> world \<Rightarrow> string option \<times> world" where
  \<comment> \<open>the first component is the message of the error the call rejects with, if any\<close>
  "resumeProject E pid w =
     (case getProject pid w of
        None \<Rightarrow> (Some ''Project not found'', w)
      | Some project \<Rightarrow>
          let w1 = updateProjectStatus E pid ''running'' w;
              w2 = emit (ProjectResumed pid) w1
          in executeAgentPipeline E pid (stored pid project w2) w2)"

section \<open>Reachable worlds\<close>

text \<open>
  The worlds the server can be in: the empty store, and what creating a project, the three
  orchestrator operations and the replacement of a file's content make of a reachable
  world, whatever the environment answers. The last rule is the loop's saving of a list of
  files taken on its own, which only adds worlds to those the operations reach.
\<close>

inductive reachable :: "world \<Rightarrow> bool" where
  reach_new: "reachable MemStorage_new"
| reach_create: "reachable w \<Longrightarrow> reachable (snd (createProject E ins w))"
| reach_start: "reachable w \<Longrightarrow> reachable (startProject E pid w)"
| reach_pause: "reachable w \<Longrightarrow> reachable (pauseProject E pid w)"
| reach_resume: "reachable w \<Longrightarrow> reachable (snd (resumeProject E pid w))"
| reach_replace: "reachable w \<Longrightarrow> reachable (updateProjectFile fid c w)"
| reach_save: "reachable w \<Longrightarrow> reachable (save_files E pid fs w)"

section \<open>Reading a world\<close>

definition status_of :: "string \<Rightarrow> world \<Rightarrow> string option" where
  \<comment> \<open>\<open>project.status\<close> of the stored project, if there is one\<close>
  "status_of pid w = map_option status (getProject pid w)"

definition state_of :: "string \<Rightarrow> world \<Rightarrow> AgentState option" where
  \<comment> \<open>\<open>project.state\<close> of the stored project, if there is one and it is not null\<close>
  "state_of pid w = Option.bind (getProject pid w) state"

fun is_stage_event :: "event \<Rightarrow> bool" where
  \<comment> \<open>the events a stage emits through \<open>BaseAgent\<close>: log lines and progress\<close>
  "is_stage_event (LogEvent l) = True"
| "is_stage_event (ProgressEvent n k) = True"
| "is_stage_event e = False"

definition lifecycle :: "world \<Rightarrow> event list" where
  \<comment> \<open>the events the orchestrator itself has emitted, in order\<close>
  "lifecycle w = filter (\<lambda>e. \<not> is_stage_event e) (emitted w)"

definition always_succeeds :: "env \<Rightarrow> bool" where
  \<comment> \<open>an environment in which no request to the generation service fails and the
      Deployment stage returns success\<close>
  "always_succeeds E =
     ((\<forall>n req. ai_success (gemini E n req))
      \<and> (\<forall>pid cfg prev w.
            case snd (deployment E pid cfg prev w) of Inl msg \<Rightarrow> False | Inr r \<Rightarrow> success r))"

definition eligible :: "string list \<Rightarrow> AgentConfig \<Rightarrow> bool" where
  \<comment> \<open>a declaration that is not completed and whose dependencies all are\<close>
  "eligible completed c =
     (agent_name c \<notin> set completed \<and> set (dependencies c) \<subseteq> set completed)"

section \<open>Invariants\<close>

definition synced :: "string \<Rightarrow> AgentState \<Rightarrow> world \<Rightarrow> bool" where
  \<comment> \<open>\<open>st\<close> is the value of \<open>project.state || {...}\<close> for the stored project\<close>
  "synced pid st w =
     (case getProject pid w of
        None \<Rightarrow> False
      | Some p \<Rightarrow> st = (case state p of None \<Rightarrow> initialState | Some s \<Rightarrow> s))"

definition closed_under_deps :: "AgentConfig list \<Rightarrow> string list \<Rightarrow> bool" where
  \<comment> \<open>every completed stage of the configuration has its dependencies completed\<close>
  "closed_under_deps cfgs completed =
     list_all (\<lambda>c. agent_name c \<notin> set completed \<or> set (dependencies c) \<subseteq> set completed) cfgs"

definition state_ok :: "AgentState \<Rightarrow> bool" where
  "state_ok st =
     (closed_under_deps agentConfigs (completedAgents st)
      \<and> fst ` set (agentOutputs st) = set (completedAgents st))"

definition all_completed :: "AgentState \<Rightarrow> bool" where
  "all_completed st = list_all (\<lambda>c. agent_name c \<in> set (completedAgents st)) agentConfigs"

definition project_ok :: "Project \<Rightarrow> bool" where
  "project_ok p =
     (case state p of
        None \<Rightarrow> status p \<noteq> ''completed''
      | Some st \<Rightarrow> state_ok st \<and> (status p \<noteq> ''completed'' \<or> all_completed st))"

definition files_ok :: "world \<Rightarrow> bool" where
  "files_ok w = list_all (\<lambda>entry. file_size (snd entry) = length (content (snd entry))) (projectFiles w)"

definition world_ok :: "world \<Rightarrow> bool" where
  "world_ok w = (files_ok w \<and> (\<forall>pid p. getProject pid w = Some p \<longrightarrow> project_ok p))"

section \<open>Sample inputs\<close>

definition ok_reply :: "string \<Rightarrow> AIResponse" where
  "ok_reply c = \<lparr>ai_content = c, ai_success = True, ai_error = None\<rparr>"

definition failed_reply :: "string \<Rightarrow> AIResponse" where
  "failed_reply msg = \<lparr>ai_content = [], ai_success = False, ai_error = Some msg\<rparr>"

definition sample_config :: ProjectConfig where
  "sample_config =
     \<lparr>cfg_description = Some ''A landing page'', cfg_projectName = Some ''landing'',
      cfg_stack = Some ''react'', cfg_database = Some ''none'', cfg_features = Some []\<rparr>"

definition sample_project :: InsertProject where
  "sample_project =
     \<lparr>ins_name = ''landing'', ins_description = ''A landing page'', ins_config = sample_config\<rparr>"

definition sample_env :: "(nat \<Rightarrow> request \<Rightarrow> AIResponse) \<Rightarrow> env" where
  "sample_env g =
     \<lparr>gemini = g, randomUUID = show_nat, clock = (\<lambda>n. 1000 + n),
      parseRequirements =
        (\<lambda>s. \<lparr>st_features = [], st_tables = [], st_apis = [], st_components = []\<rparr>),
      frontend_codeBlockFiles = (\<lambda>s. []),
      frontend_appTsx = (\<lambda>projectName. ''<h1>'' @ projectName @ ''</h1>''),
      frontend_packageJson = (\<lambda>projectName. ''name: '' @ toLowerCase projectName),
      frontend_extractArchitectureInfo =
        (\<lambda>s. \<lparr>fa_components = 0, fa_hooks = 0, fa_routes = 0, fa_apiCalls = 0\<rparr>),
      backend_codeBlockFiles = (\<lambda>s. []),
      backend_indexTs = ''app.listen(PORT)'',
      backend_packageJson = (\<lambda>projectName. ''name: '' @ toLowerCase projectName @ ''-backend''),
      backend_envExample = ''PORT=3001'',
      backend_extractArchitectureInfo =
        (\<lambda>s. \<lparr>ba_routes = 0, ba_middleware = 0, ba_models = 0, ba_controllers = 0\<rparr>),
      backend_extractEndpoints = (\<lambda>s. []),
      deployment =
        (\<lambda>pid cfg prev w.
           ([LogAction Info ''Packaging''],
            Inr \<lparr>success = True, res_output = Some (DeploymentOutput ''bundle''), error = None,
                 files = None\<rparr>))\<rparr>"

definition sample_good_env :: env where
  \<comment> \<open>every request is answered\<close>
  "sample_good_env = sample_env (\<lambda>n r. ok_reply ''All good'')"

definition sample_bad_env :: env where
  \<comment> \<open>the request of the Frontend stage fails, every other request is answered\<close>
  "sample_bad_env =
     sample_env (\<lambda>n r. case r of FrontendPrompt spec cfg \<Rightarrow> failed_reply ''quota exceeded''
                                  | _ \<Rightarrow> ok_reply ''All good'')"

definition sample_created :: world where
  \<comment> \<open>the sample project, created in the empty store under the identifier \<open>0\<close>\<close>
  "sample_created = snd (createProject sample_good_env sample_project MemStorage_new)"

definition sample_completed :: world where
  "sample_completed = startProject sample_good_env ''0'' sample_created"

definition sample_file :: GenFile where
  "sample_file = \<lparr>path = ''/src/App.tsx'', content = ''export default App'',
                   language = Some ''typescript''\<rparr>"

definition sample_frontend :: stage_output where
  "sample_frontend =
     FrontendOutput ''export default App'' 1
       \<lparr>fa_components = 1, fa_hooks = 0, fa_routes = 0, fa_apiCalls = 0\<rparr>"

definition sample_requirement :: stage_output where
  "sample_requirement =
     RequirementOutput ''One static page''
       \<lparr>st_features = [], st_tables = [], st_apis = [], st_components = []\<rparr> sample_config"

definition report_with_issue :: string where
  "report_with_issue = ''Critical issues:\<newline>- SQL injection in login form''"

section \<open>The stages: missing inputs, the skipped backend, validation\<close>

lemma requests_emit [simp]: "requests (emit e w) = requests w"
  by (simp add: emit_def)

lemma requests_addAgentLog [simp]: "requests (addAgentLog E l w) = requests w"
  by (simp add: addAgentLog_def Let_def)

lemma requests_agent_log [simp]: "requests (agent_log E n p l m w) = requests w"
  by (simp add: agent_log_def Let_def)

lemma requests_updateProgress [simp]: "requests (updateProgress n k w) = requests w"
  by (simp add: updateProgress_def)

lemma frontend_missing_requirement:
  assumes "lookup_output previousOutputs ''Requirement'' = None"
  shows "fst (FrontendAgent_execute E name pid cfg previousOutputs w)
           = failed ''Requirements not found from previous agent''"
    and "requests (snd (FrontendAgent_execute E name pid cfg previousOutputs w)) = requests w"
  using assms by (simp_all add: FrontendAgent_execute_def Let_def caught_def)

lemma backend_missing_requirement:
  assumes "lookup_output previousOutputs ''Requirement'' = None"
  shows "fst (BackendAgent_execute E name pid cfg previousOutputs w)
           = failed ''Requirements not found from previous agent''"
    and "requests (snd (BackendAgent_execute E name pid cfg previousOutputs w)) = requests w"
  using assms by (simp_all add: BackendAgent_execute_def Let_def caught_def)

lemma validator_missing_frontend:
  assumes "lookup_output previousOutputs ''Frontend'' = None"
  shows "fst (ValidatorAgent_execute E name pid cfg previousOutputs w)
           = failed ''Frontend output not found from previous agent''"
    and "requests (snd (ValidatorAgent_execute E name pid cfg previousOutputs w)) = requests w"
  using assms by (simp_all add: ValidatorAgent_execute_def Let_def caught_def)

lemma validator_result:
  assumes "lookup_output previousOutputs ''Frontend'' = Some frontendOutput"
    and "ai_success (gemini E (length (requests w))
           (ValidationPrompt (codeToValidate_of frontendOutput (lookup_output previousOutputs ''Backend''))))"
  shows "fst (ValidatorAgent_execute E name pid cfg previousOutputs w) =
    (let ctv = codeToValidate_of frontendOutput (lookup_output previousOutputs ''Backend'');
         r1 = gemini E (length (requests w)) (ValidationPrompt ctv);
         vr = parseValidationResults (ai_content r1);
         r2 = gemini E (Suc (length (requests w))) (FixPrompt (criticalIssues vr) (ctv_frontend ctv));
         fx = (if ai_success r2 \<and> ai_content r2 \<noteq> [] then parseFixedFiles (ai_content r2) else [])
     in if criticalIssues vr \<noteq> []
        then \<lparr>success = True,
               res_output = Some (ValidatorOutput (ai_content r1) (criticalIssues vr) (minorIssues vr)
                              (qualityScore vr) (Some fx) False),
               error = None, files = Some fx\<rparr>
        else \<lparr>success = True,
               res_output = Some (ValidatorOutput (ai_content r1) [] (minorIssues vr)
                              (qualityScore vr) None True),
               error = None, files = None\<rparr>)"
  using assms
  by (simp add: ValidatorAgent_execute_def Let_def generateFixes_def generateContent_def
        split: prod.splits)

lemma validator_requests:
  assumes "lookup_output previousOutputs ''Frontend'' = Some frontendOutput"
  shows "requests (snd (ValidatorAgent_execute E name pid cfg previousOutputs w)) =
    (let ctv = codeToValidate_of frontendOutput (lookup_output previousOutputs ''Backend'');
         r1 = gemini E (length (requests w)) (ValidationPrompt ctv);
         vr = parseValidationResults (ai_content r1)
     in if ai_success r1 \<and> criticalIssues vr \<noteq> []
        then requests w @ [ValidationPrompt ctv, FixPrompt (criticalIssues vr) (ctv_frontend ctv)]
        else requests w @ [ValidationPrompt ctv])"
  using assms
  by (simp add: ValidatorAgent_execute_def Let_def generateFixes_def generateContent_def caught_def
        split: prod.splits)

lemma validator_success:
  assumes "lookup_output previousOutputs ''Frontend'' = Some frontendOutput"
  shows "success (fst (ValidatorAgent_execute E name pid cfg previousOutputs w)) =
     ai_success (gemini E (length (requests w))
           (ValidationPrompt (codeToValidate_of frontendOutput (lookup_output previousOutputs ''Backend''))))"
  using assms
  by (simp add: ValidatorAgent_execute_def Let_def generateFixes_def generateContent_def caught_def failed_def
        split: prod.splits)

lemma parse_report_with_issue:
  "parseValidationResults report_with_issue =
     \<lparr>criticalIssues = [''SQL injection in login form''], minorIssues = [], qualityScore = ''7''\<rparr>"
  by (simp add: report_with_issue_def parseValidationResults_def split_lines_def parse_line_def toLowerCase_def
        lower_char_def is_upper_def trim_def is_space_def)

lemma parse_all_good:
  "parseValidationResults ''All good'' = \<lparr>criticalIssues = [], minorIssues = [], qualityScore = ''7''\<rparr>"
  by (simp add: parseValidationResults_def split_lines_def parse_line_def toLowerCase_def
        lower_char_def is_upper_def trim_def is_space_def)

text \<open>
  Against claim C4 as stated: with a Frontend output and no Backend output among its
  inputs the Validator does not fail; it validates and returns success.
\<close>

theorem C4_counterexample:
  "lookup_output [(''Frontend'', Some sample_frontend)] ''Backend'' = None
   \<and> fst (ValidatorAgent_execute (sample_env (\<lambda>n r. ok_reply ''All good'')) ''Validator'' ''p1''
            sample_config [(''Frontend'', Some sample_frontend)] MemStorage_new)
       = \<lparr>success = True,
          res_output = Some (ValidatorOutput ''All good'' [] [] ''7'' None True),
          error = None, files = None\<rparr>"
proof -
  have front: "lookup_output [(''Frontend'', Some sample_frontend)] ''Frontend'' = Some sample_frontend"
    by (simp add: lookup_output_def)
  have ok: "ai_success (gemini (sample_env (\<lambda>n r. ok_reply ''All good'')) (length (requests MemStorage_new))
           (ValidationPrompt (codeToValidate_of sample_frontend (lookup_output [(''Frontend'', Some sample_frontend)] ''Backend''))))"
    by (simp add: sample_env_def ok_reply_def)
  show ?thesis
    using validator_result [OF front ok, of "''Validator''" "''p1''" sample_config]
    by (simp add: lookup_output_def Let_def sample_env_def ok_reply_def parse_all_good)
qed

text \<open>
  Against claim C9 as stated: the report names a critical issue and the request for fixes
  fails; the Validator still returns success, with an empty list of fixes.
\<close>

theorem C9_counterexample:
  "fst (ValidatorAgent_execute
          (sample_env (\<lambda>n r. if n = 0 then ok_reply report_with_issue else failed_reply ''quota exceeded''))
          ''Validator'' ''p1'' sample_config [(''Frontend'', Some sample_frontend)] MemStorage_new)
     = \<lparr>success = True,
        res_output = Some (ValidatorOutput report_with_issue [''SQL injection in login form''] [] ''7''
                       (Some []) False),
        error = None, files = Some []\<rparr>"
proof -
  let ?E = "sample_env (\<lambda>n r. if n = 0 then ok_reply report_with_issue else failed_reply ''quota exceeded'')"
  have front: "lookup_output [(''Frontend'', Some sample_frontend)] ''Frontend'' = Some sample_frontend"
    by (simp add: lookup_output_def)
  have ok: "ai_success (gemini ?E (length (requests MemStorage_new))
           (ValidationPrompt (codeToValidate_of sample_frontend (lookup_output [(''Frontend'', Some sample_frontend)] ''Backend''))))"
    by (simp add: sample_env_def ok_reply_def MemStorage_new_def)
  show ?thesis
    using validator_result [OF front ok, of "''Validator''" "''p1''" sample_config]
    by (simp add: Let_def sample_env_def ok_reply_def failed_reply_def MemStorage_new_def parse_report_with_issue)
qed


lemma backend_skipped:
  assumes "lookup_output previousOutputs ''Requirement'' = Some requirements"
    and "\<not> checkIfBackendNeeded cfg requirements"
  shows "fst (BackendAgent_execute E name pid cfg previousOutputs w)
           = \<lparr>success = True,
              res_output = Some (BackendSkipped ''frontend-only'' ''No backend required''),
              error = None, files = None\<rparr>"
    and "requests (snd (BackendAgent_execute E name pid cfg previousOutputs w)) = requests w"
  using assms by (simp_all add: BackendAgent_execute_def Let_def)

lemma validator_first_request:
  assumes "lookup_output previousOutputs ''Frontend'' = Some frontendOutput"
  shows "take (Suc (length (requests w)))
           (requests (snd (ValidatorAgent_execute E name pid cfg previousOutputs w)))
         = requests w @ [ValidationPrompt
                           (codeToValidate_of frontendOutput (lookup_output previousOutputs ''Backend''))]"
  by (simp add: validator_requests [OF assms] Let_def)

text \<open>
  Claim C4, amended. The Frontend and the Backend stage check that the Requirement output
  is among their inputs, and the Validator stage checks that the Frontend output is; each
  returns failure with a reason naming what is missing, before any request to the
  generation service. The Validator does not check the Backend output: when it is absent
  the Validator goes on to request a validation that treats the backend code as empty,
  and succeeds when that request does.
\<close>

theorem C4_predecessor_checks:
  "(lookup_output previousOutputs ''Requirement'' = None \<longrightarrow>
      fst (FrontendAgent_execute E name pid cfg previousOutputs w)
        = failed ''Requirements not found from previous agent''
      \<and> requests (snd (FrontendAgent_execute E name pid cfg previousOutputs w)) = requests w
      \<and> fst (BackendAgent_execute E name pid cfg previousOutputs w)
        = failed ''Requirements not found from previous agent''
      \<and> requests (snd (BackendAgent_execute E name pid cfg previousOutputs w)) = requests w)
   \<and> (lookup_output previousOutputs ''Frontend'' = None \<longrightarrow>
      fst (ValidatorAgent_execute E name pid cfg previousOutputs w)
        = failed ''Frontend output not found from previous agent''
      \<and> requests (snd (ValidatorAgent_execute E name pid cfg previousOutputs w)) = requests w)
   \<and> (lookup_output previousOutputs ''Frontend'' = Some frontendOutput
        \<and> lookup_output previousOutputs ''Backend'' = None \<longrightarrow>
      take (Suc (length (requests w)))
         (requests (snd (ValidatorAgent_execute E name pid cfg previousOutputs w)))
        = requests w @ [ValidationPrompt
                          \<lparr>ctv_frontend = or_else (prop_codeGenerated frontendOutput) [],
                           ctv_backend = [], hasBackend = True\<rparr>]
      \<and> success (fst (ValidatorAgent_execute E name pid cfg previousOutputs w))
        = ai_success (gemini E (length (requests w))
            (ValidationPrompt
               \<lparr>ctv_frontend = or_else (prop_codeGenerated frontendOutput) [],
                ctv_backend = [], hasBackend = True\<rparr>)))"
proof (intro conjI impI)
  assume "lookup_output previousOutputs ''Frontend'' = Some frontendOutput
            \<and> lookup_output previousOutputs ''Backend'' = None"
  then have f: "lookup_output previousOutputs ''Frontend'' = Some frontendOutput"
    and b: "lookup_output previousOutputs ''Backend'' = None"
    by simp_all
  have ctv: "codeToValidate_of frontendOutput None
               = \<lparr>ctv_frontend = or_else (prop_codeGenerated frontendOutput) [],
                  ctv_backend = [], hasBackend = True\<rparr>"
    by (simp add: codeToValidate_of_def or_else_def)
  show "take (Suc (length (requests w)))
         (requests (snd (ValidatorAgent_execute E name pid cfg previousOutputs w)))
        = requests w @ [ValidationPrompt
                          \<lparr>ctv_frontend = or_else (prop_codeGenerated frontendOutput) [],
                           ctv_backend = [], hasBackend = True\<rparr>]"
    using validator_first_request [OF f, of w E name pid cfg] by (simp add: b ctv)
  show "success (fst (ValidatorAgent_execute E name pid cfg previousOutputs w))
        = ai_success (gemini E (length (requests w))
            (ValidationPrompt
               \<lparr>ctv_frontend = or_else (prop_codeGenerated frontendOutput) [],
                ctv_backend = [], hasBackend = True\<rparr>))"
    using validator_success [OF f, of E name pid cfg w] by (simp add: b ctv)
qed (simp_all add: frontend_missing_requirement backend_missing_requirement
       validator_missing_frontend)

text \<open>The four cases of C4 on sample inputs.\<close>

theorem C4_predecessor_checks_witness:
  "lookup_output [] ''Requirement'' = None
   \<and> fst (FrontendAgent_execute (sample_env (\<lambda>n r. ok_reply ''All good'')) ''Frontend'' ''p1''
            sample_config [] MemStorage_new)
       = failed ''Requirements not found from previous agent''
   \<and> fst (BackendAgent_execute (sample_env (\<lambda>n r. ok_reply ''All good'')) ''Frontend'' ''p1''
            sample_config [] MemStorage_new)
       = failed ''Requirements not found from previous agent''
   \<and> lookup_output [] ''Frontend'' = None
   \<and> fst (ValidatorAgent_execute (sample_env (\<lambda>n r. ok_reply ''All good'')) ''Frontend'' ''p1''
            sample_config [] MemStorage_new)
       = failed ''Frontend output not found from previous agent''
   \<and> lookup_output [(''Frontend'', Some sample_frontend)] ''Frontend'' = Some sample_frontend
   \<and> lookup_output [(''Frontend'', Some sample_frontend)] ''Backend'' = None
   \<and> success (fst (ValidatorAgent_execute (sample_env (\<lambda>n r. ok_reply ''All good'')) ''Validator''
                     ''p1'' sample_config [(''Frontend'', Some sample_frontend)] MemStorage_new))"
  using C4_predecessor_checks [of "[]" "sample_env (\<lambda>n r. ok_reply ''All good'')" "''Frontend''"
          "''p1''" sample_config MemStorage_new]
        C4_predecessor_checks [of "[(''Frontend'', Some sample_frontend)]"
          "sample_env (\<lambda>n r. ok_reply ''All good'')" "''Validator''" "''p1''" sample_config
          MemStorage_new sample_frontend]
  by (simp add: lookup_output_def sample_env_def ok_reply_def)

text \<open>
  Claim C8. When the Backend stage finds that no backend is needed, it returns success
  with the output \<open>{type: 'frontend-only', message: 'No backend required'}\<close> and no files,
  without a request to the generation service. A Validator whose inputs hold that output
  for Backend, and a Frontend output, does not stop for a missing predecessor: it sends
  its validation request, marked as having no backend, and succeeds when the request does.
\<close>

theorem C8_backend_skipped:
  assumes "lookup_output previousOutputs ''Requirement'' = Some requirements"
    and "\<not> checkIfBackendNeeded cfg requirements"
    and "lookup_output validatorInputs ''Backend''
           = res_output (fst (BackendAgent_execute E name pid cfg previousOutputs w))"
    and "lookup_output validatorInputs ''Frontend'' = Some frontendOutput"
  shows "fst (BackendAgent_execute E name pid cfg previousOutputs w)
           = \<lparr>success = True,
              res_output = Some (BackendSkipped ''frontend-only'' ''No backend required''),
              error = None, files = None\<rparr>
         \<and> requests (snd (BackendAgent_execute E name pid cfg previousOutputs w)) = requests w
         \<and> take (Suc (length (requests w')))
              (requests (snd (ValidatorAgent_execute E' name' pid cfg validatorInputs w')))
             = requests w' @ [ValidationPrompt
                                \<lparr>ctv_frontend = or_else (prop_codeGenerated frontendOutput) [],
                                 ctv_backend = [], hasBackend = False\<rparr>]
         \<and> success (fst (ValidatorAgent_execute E' name' pid cfg validatorInputs w'))
             = ai_success (gemini E' (length (requests w'))
                 (ValidationPrompt
                    \<lparr>ctv_frontend = or_else (prop_codeGenerated frontendOutput) [],
                     ctv_backend = [], hasBackend = False\<rparr>))"
proof -
  note skipped = backend_skipped [OF assms(1,2), of E name pid w]
  have b: "lookup_output validatorInputs ''Backend''
             = Some (BackendSkipped ''frontend-only'' ''No backend required'')"
    using assms(3) by (simp add: skipped(1))
  have ctv: "codeToValidate_of frontendOutput
               (Some (BackendSkipped ''frontend-only'' ''No backend required''))
               = \<lparr>ctv_frontend = or_else (prop_codeGenerated frontendOutput) [],
                  ctv_backend = [], hasBackend = False\<rparr>"
    by (simp add: codeToValidate_of_def or_else_def)
  show ?thesis
    using validator_first_request [OF assms(4), of w' E' name' pid cfg]
      validator_success [OF assms(4), of E' name' pid cfg w']
    by (simp add: skipped b ctv)
qed

lemma sample_no_backend: "\<not> checkIfBackendNeeded sample_config sample_requirement"
  by (simp add: checkIfBackendNeeded_def sample_config_def sample_requirement_def backendKeywords_def
        or_else_def toLowerCase_def lower_char_def is_upper_def)

text \<open>C8 on the sample project, a static page without database or features.\<close>

theorem C8_backend_skipped_witness:
  "lookup_output [(''Requirement'', Some sample_requirement)] ''Requirement'' = Some sample_requirement
   \<and> \<not> checkIfBackendNeeded sample_config sample_requirement
   \<and> fst (BackendAgent_execute (sample_env (\<lambda>n r. ok_reply ''All good'')) ''Backend'' ''p1''
            sample_config [(''Requirement'', Some sample_requirement)] MemStorage_new)
       = \<lparr>success = True,
          res_output = Some (BackendSkipped ''frontend-only'' ''No backend required''),
          error = None, files = None\<rparr>
   \<and> success (fst (ValidatorAgent_execute (sample_env (\<lambda>n r. ok_reply ''All good'')) ''Validator''
                     ''p1'' sample_config
                     [(''Frontend'', Some sample_frontend),
                      (''Backend'', Some (BackendSkipped ''frontend-only'' ''No backend required''))]
                     MemStorage_new))"
proof -
  let ?E = "sample_env (\<lambda>n r. ok_reply ''All good'')"
  let ?prev = "[(''Requirement'', Some sample_requirement)]"
  let ?vin = "[(''Frontend'', Some sample_frontend),
               (''Backend'', Some (BackendSkipped ''frontend-only'' ''No backend required''))]"
  have r: "lookup_output ?prev ''Requirement'' = Some sample_requirement"
    by (simp add: lookup_output_def)
  have f: "lookup_output ?vin ''Frontend'' = Some sample_frontend"
    by (simp add: lookup_output_def)
  have b: "lookup_output ?vin ''Backend''
             = res_output (fst (BackendAgent_execute ?E ''Backend'' ''p1'' sample_config ?prev
                                  MemStorage_new))"
    by (simp add: lookup_output_def backend_skipped [OF r sample_no_backend])
  show ?thesis
    using C8_backend_skipped [OF r sample_no_backend b f, of MemStorage_new ?E "''Validator''"]
    by (simp add: r sample_no_backend sample_env_def ok_reply_def)
qed

text \<open>
  Claim C9, amended. When the validation request succeeds and the parsed report has at
  least one critical issue, the Validator sends exactly one more request, for fixes, and
  returns success with \<open>isProductionReady: false\<close>; its fixes and its files are the files
  parsed from the reply to that request, and the empty list when the request fails or
  its reply is empty. With no critical issue it sends no further request and returns
  success with \<open>isProductionReady: true\<close>, no fixes and no files.
\<close>

theorem C9_validator_fixes:
  assumes "lookup_output previousOutputs ''Frontend'' = Some frontendOutput"
    and "ai_success (gemini E (length (requests w))
           (ValidationPrompt
              (codeToValidate_of frontendOutput (lookup_output previousOutputs ''Backend''))))"
  shows
    "let ctv = codeToValidate_of frontendOutput (lookup_output previousOutputs ''Backend'');
         r1 = gemini E (length (requests w)) (ValidationPrompt ctv);
         vr = parseValidationResults (ai_content r1);
         r2 = gemini E (Suc (length (requests w))) (FixPrompt (criticalIssues vr) (ctv_frontend ctv));
         fx = (if ai_success r2 \<and> ai_content r2 \<noteq> [] then parseFixedFiles (ai_content r2) else [])
     in if criticalIssues vr \<noteq> []
        then fst (ValidatorAgent_execute E name pid cfg previousOutputs w)
               = \<lparr>success = True,
                  res_output = Some (ValidatorOutput (ai_content r1) (criticalIssues vr)
                                 (minorIssues vr) (qualityScore vr) (Some fx) False),
                  error = None, files = Some fx\<rparr>
             \<and> requests (snd (ValidatorAgent_execute E name pid cfg previousOutputs w))
               = requests w @ [ValidationPrompt ctv,
                               FixPrompt (criticalIssues vr) (ctv_frontend ctv)]
        else fst (ValidatorAgent_execute E name pid cfg previousOutputs w)
               = \<lparr>success = True,
                  res_output = Some (ValidatorOutput (ai_content r1) [] (minorIssues vr)
                                 (qualityScore vr) None True),
                  error = None, files = None\<rparr>
             \<and> requests (snd (ValidatorAgent_execute E name pid cfg previousOutputs w))
               = requests w @ [ValidationPrompt ctv]"
  using validator_result [OF assms, of name pid cfg] validator_requests [OF assms(1), of E name pid cfg w]
    assms(2)
  by (simp add: Let_def)

text \<open>C9 on a report with one critical issue.\<close>

theorem C9_validator_fixes_witness:
  "lookup_output [(''Frontend'', Some sample_frontend)] ''Frontend'' = Some sample_frontend
   \<and> criticalIssues (parseValidationResults report_with_issue) \<noteq> []
   \<and> requests (snd (ValidatorAgent_execute (sample_env (\<lambda>n r. ok_reply report_with_issue))
                      ''Validator'' ''p1'' sample_config [(''Frontend'', Some sample_frontend)]
                      MemStorage_new))
       = [ValidationPrompt (codeToValidate_of sample_frontend None),
          FixPrompt [''SQL injection in login form'']
            (ctv_frontend (codeToValidate_of sample_frontend None))]"
proof -
  let ?E = "sample_env (\<lambda>n r. ok_reply report_with_issue)"
  let ?prev = "[(''Frontend'', Some sample_frontend)]"
  have front: "lookup_output ?prev ''Frontend'' = Some sample_frontend"
    by (simp add: lookup_output_def)
  have ok: "ai_success (gemini ?E (length (requests MemStorage_new))
              (ValidationPrompt (codeToValidate_of sample_frontend (lookup_output ?prev ''Backend''))))"
    by (simp add: sample_env_def ok_reply_def)
  show ?thesis
    using C9_validator_fixes [OF front ok, of "''Validator''" "''p1''" sample_config]
    by (simp add: Let_def front sample_env_def ok_reply_def parse_report_with_issue
          lookup_output_def MemStorage_new_def)
qed

section \<open>What each step changes\<close>

lemma emit_fields [simp]:
  "projects (emit e w) = projects w" "projectFiles (emit e w) = projectFiles w"
  "agentLogs (emit e w) = agentLogs w" "emitted (emit e w) = emitted w @ [e]"
  "uuids (emit e w) = uuids w" "ticks (emit e w) = ticks w"
  by (simp_all add: emit_def)

lemma getProject_emit [simp]: "getProject k (emit e w) = getProject k w"
  by (simp add: getProject_def)

lemma generateContent_fields [simp]:
  "fst (generateContent E req w) = gemini E (length (requests w)) req"
  "projects (snd (generateContent E req w)) = projects w"
  "projectFiles (snd (generateContent E req w)) = projectFiles w"
  "agentLogs (snd (generateContent E req w)) = agentLogs w"
  "emitted (snd (generateContent E req w)) = emitted w"
  "requests (snd (generateContent E req w)) = requests w @ [req]"
  "uuids (snd (generateContent E req w)) = uuids w"
  "ticks (snd (generateContent E req w)) = ticks w"
  by (simp_all add: generateContent_def)

lemma getProject_generateContent [simp]:
  "getProject k (snd (generateContent E req w)) = getProject k w"
  by (simp add: getProject_def)

lemma addAgentLog_fields [simp]:
  "projects (addAgentLog E l w) = projects w" "projectFiles (addAgentLog E l w) = projectFiles w"
  "emitted (addAgentLog E l w) = emitted w"
  "uuids (addAgentLog E l w) = Suc (uuids w)" "ticks (addAgentLog E l w) = Suc (ticks w)"
  by (simp_all add: addAgentLog_def Let_def)

lemma agent_log_fields [simp]:
  "projects (agent_log E n p l m w) = projects w"
  "projectFiles (agent_log E n p l m w) = projectFiles w"
  "emitted (agent_log E n p l m w)
     = emitted w @ [LogEvent \<lparr>log_projectId = p, agentName = n, log_level = l, message = m,
                              metadata = None\<rparr>]"
  "uuids (agent_log E n p l m w) = Suc (uuids w)" "ticks (agent_log E n p l m w) = Suc (ticks w)"
  by (simp_all add: agent_log_def Let_def)

lemma getProject_agent_log [simp]: "getProject k (agent_log E n p l m w) = getProject k w"
  by (simp add: getProject_def)

lemma updateProgress_fields [simp]:
  "projects (updateProgress n k w) = projects w"
  "projectFiles (updateProgress n k w) = projectFiles w"
  "emitted (updateProgress n k w) = emitted w @ [ProgressEvent n k]"
  "uuids (updateProgress n k w) = uuids w" "ticks (updateProgress n k w) = ticks w"
  by (simp_all add: updateProgress_def)

lemma getProject_updateProgress [simp]: "getProject k (updateProgress n j w) = getProject k w"
  by (simp add: getProject_def)

lemma addProjectFile_fields [simp]:
  "projects (addProjectFile E f w) = projects w" "emitted (addProjectFile E f w) = emitted w"
  "requests (addProjectFile E f w) = requests w"
  "uuids (addProjectFile E f w) = Suc (uuids w)" "ticks (addProjectFile E f w) = Suc (ticks w)"
  by (simp_all add: addProjectFile_def Let_def)

lemma getProject_addProjectFile [simp]: "getProject k (addProjectFile E f w) = getProject k w"
  by (simp add: getProject_def)

lemma save_files_fields [simp]:
  "projects (save_files E pid fs w) = projects w" "emitted (save_files E pid fs w) = emitted w"
  "requests (save_files E pid fs w) = requests w"
  by (induction fs arbitrary: w) simp_all

lemma getProject_save_files [simp]: "getProject k (save_files E pid fs w) = getProject k w"
  by (simp add: getProject_def)

lemma updateProjectFile_fields [simp]:
  "projects (updateProjectFile fid c w) = projects w"
  "emitted (updateProjectFile fid c w) = emitted w"
  by (simp_all add: updateProjectFile_def split: option.splits)

lemma getProject_updateProjectFile [simp]: "getProject k (updateProjectFile fid c w) = getProject k w"
  by (simp add: getProject_def)

lemma updateProjectStatus_fields [simp]:
  "projectFiles (updateProjectStatus E pid s w) = projectFiles w"
  "emitted (updateProjectStatus E pid s w) = emitted w"
  "requests (updateProjectStatus E pid s w) = requests w"
  "uuids (updateProjectStatus E pid s w) = uuids w"
  by (simp_all add: updateProjectStatus_def split: option.splits)

lemma getProject_updateProjectStatus [simp]:
  "getProject k (updateProjectStatus E pid s w)
     = (if k = pid
        then map_option (\<lambda>p. p\<lparr>status := s, updatedAt := clock E (ticks w)\<rparr>) (getProject pid w)
        else getProject k w)"
  by (simp add: getProject_def updateProjectStatus_def update_conv' split: option.splits)

lemma updateProjectState_fields [simp]:
  "projectFiles (updateProjectState E pid st w) = projectFiles w"
  "emitted (updateProjectState E pid st w) = emitted w"
  "requests (updateProjectState E pid st w) = requests w"
  "uuids (updateProjectState E pid st w) = uuids w"
  by (simp_all add: updateProjectState_def split: option.splits)

lemma getProject_updateProjectState [simp]:
  "getProject k (updateProjectState E pid st w)
     = (if k = pid
        then map_option (\<lambda>p. p\<lparr>state := Some st, updatedAt := clock E (ticks w)\<rparr>) (getProject pid w)
        else getProject k w)"
  by (simp add: getProject_def updateProjectState_def update_conv' split: option.splits)

lemma in_place_fields [simp]:
  "projectFiles (in_place pid st w) = projectFiles w" "emitted (in_place pid st w) = emitted w"
  "requests (in_place pid st w) = requests w"
  "uuids (in_place pid st w) = uuids w" "ticks (in_place pid st w) = ticks w"
  by (simp_all add: in_place_def split: option.splits)

lemma getProject_in_place [simp]:
  "getProject k (in_place pid st w)
     = (if k = pid then map_option (\<lambda>p. p\<lparr>state := Some st\<rparr>) (getProject pid w)
        else getProject k w)"
  by (simp add: getProject_def in_place_def update_conv' split: option.splits)

lemma record_error_fields [simp]:
  "fst (record_error E name msg st w)
     = st\<lparr>errors := errors st @ [\<lparr>err_agent = name, err_error = msg,
                                    err_timestamp = clock E (ticks w)\<rparr>]\<rparr>"
  "projects (snd (record_error E name msg st w)) = projects w"
  "projectFiles (snd (record_error E name msg st w)) = projectFiles w"
  "emitted (snd (record_error E name msg st w)) = emitted w"
  "requests (snd (record_error E name msg st w)) = requests w"
  "uuids (snd (record_error E name msg st w)) = uuids w"
  "ticks (snd (record_error E name msg st w)) = Suc (ticks w)"
  by (simp_all add: record_error_def now_def)

lemma getProject_record_error [simp]:
  "getProject k (snd (record_error E name msg st w)) = getProject k w"
  by (simp add: getProject_def)

lemma createProject_fields [simp]:
  "projectFiles (snd (createProject E ins w)) = projectFiles w"
  "emitted (snd (createProject E ins w)) = emitted w"
  "requests (snd (createProject E ins w)) = requests w"
  by (simp_all add: createProject_def Let_def)

lemma getProject_createProject [simp]:
  "getProject k (snd (createProject E ins w))
     = (if k = randomUUID E (uuids w) then Some (fst (createProject E ins w)) else getProject k w)"
  by (simp add: getProject_def createProject_def Let_def update_conv')

lemma created_project [simp]:
  "status (fst (createProject E ins w)) = ''pending''"
  "state (fst (createProject E ins w)) = None"
  "config (fst (createProject E ins w)) = ins_config ins"
  "project_id (fst (createProject E ins w)) = randomUUID E (uuids w)"
  by (simp_all add: createProject_def Let_def)

subsection \<open>The stages leave projects and files alone\<close>

lemma perform_action_fields [simp]:
  "projects (perform_action E name pid w a) = projects w"
  "projectFiles (perform_action E name pid w a) = projectFiles w"
  by (cases a; simp add: perform_action_def)+

lemma foldl_perform_action_fields [simp]:
  "projects (foldl (perform_action E name pid) w acts) = projects w"
  "projectFiles (foldl (perform_action E name pid) w acts) = projectFiles w"
  by (induction acts arbitrary: w) simp_all

lemma caught_fields [simp]:
  "fst (caught E name pid what msg w) = failed msg"
  "projects (snd (caught E name pid what msg w)) = projects w"
  "projectFiles (snd (caught E name pid what msg w)) = projectFiles w"
  by (simp_all add: caught_def)

lemma getProject_caught [simp]: "getProject k (snd (caught E name pid what msg w)) = getProject k w"
  by (simp add: getProject_def)

lemma generateFixes_fields [simp]:
  "projects (snd (generateFixes E issues ctv w)) = projects w"
  "projectFiles (snd (generateFixes E issues ctv w)) = projectFiles w"
  by (simp_all add: generateFixes_def split_beta)

lemma RequirementAgent_fields [simp]:
  "projects (snd (RequirementAgent_execute E name pid cfg prev w)) = projects w"
  "projectFiles (snd (RequirementAgent_execute E name pid cfg prev w)) = projectFiles w"
  by (simp_all add: RequirementAgent_execute_def Let_def split_beta)

lemma FrontendAgent_fields [simp]:
  "projects (snd (FrontendAgent_execute E name pid cfg prev w)) = projects w"
  "projectFiles (snd (FrontendAgent_execute E name pid cfg prev w)) = projectFiles w"
  by (simp_all add: FrontendAgent_execute_def Let_def split_beta split: option.split sum.split)

lemma BackendAgent_fields [simp]:
  "projects (snd (BackendAgent_execute E name pid cfg prev w)) = projects w"
  "projectFiles (snd (BackendAgent_execute E name pid cfg prev w)) = projectFiles w"
  by (simp_all add: BackendAgent_execute_def Let_def split_beta split: option.split sum.split)

lemma ValidatorAgent_fields [simp]:
  "projects (snd (ValidatorAgent_execute E name pid cfg prev w)) = projects w"
  "projectFiles (snd (ValidatorAgent_execute E name pid cfg prev w)) = projectFiles w"
  by (simp_all add: ValidatorAgent_execute_def Let_def split_beta split: option.split)

lemma DeploymentAgent_fields [simp]:
  "projects (snd (DeploymentAgent_execute E name pid cfg prev w)) = projects w"
  "projectFiles (snd (DeploymentAgent_execute E name pid cfg prev w)) = projectFiles w"
  by (simp_all add: DeploymentAgent_execute_def split_beta)

lemma agents_fields:
  assumes "agents E name = Some agent"
  shows "projects (snd (agent pid cfg prev w)) = projects w"
    and "projectFiles (snd (agent pid cfg prev w)) = projectFiles w"
  using assms by (auto simp: agents_def returned_def split: if_splits)

section \<open>One pass of the loop body\<close>

lemma catch_agent_error_eq [simp]:
  "catch_agent_error E pid name msg st w
     = (Some msg,
        st\<lparr>errors := errors st @ [\<lparr>err_agent = name, err_error = msg,
                                      err_timestamp = clock E (ticks w)\<rparr>]\<rparr>,
        emit (AgentError pid name msg)
          (updateProjectState E pid
             (st\<lparr>errors := errors st @ [\<lparr>err_agent = name, err_error = msg,
                                           err_timestamp = clock E (ticks w)\<rparr>]\<rparr>)
             (snd (record_error E name msg st w))))"
  by (simp add: catch_agent_error_def split_beta)

lemma run_agent_cases [case_names not_found thrown failed succeeded]:
  fixes E pid cfg name st w
  defines "st1 \<equiv> st\<lparr>currentAgent := Some name\<rparr>"
  defines "w2 \<equiv> emit (AgentStarted pid name) (updateProjectState E pid st1 w)"
  obtains
    "agents E name = None"
    "run_agent E pid cfg name st w = (Some (''Agent '' @ name @ '' not found''), st1, w2)"
  | agent msg w3 where
    "agents E name = Some agent" "agent pid cfg (agentOutputs st) w2 = (Inl msg, w3)"
    "run_agent E pid cfg name st w = catch_agent_error E pid name msg st1 w3"
  | agent result w3 where
    "agents E name = Some agent" "agent pid cfg (agentOutputs st) w2 = (Inr result, w3)"
    "\<not> success result"
    "run_agent E pid cfg name st w
       = catch_agent_error E pid name (''Agent '' @ name @ '' failed: '' @ template (error result))
           (fst (record_error E name (or_else (error result) ''Unknown error'') st1 w3))
           (snd (record_error E name (or_else (error result) ''Unknown error'') st1 w3))"
  | agent result w3 where
    "agents E name = Some agent" "agent pid cfg (agentOutputs st) w2 = (Inr result, w3)"
    "success result"
    "run_agent E pid cfg name st w
       = (None,
          st\<lparr>completedAgents := completedAgents st @ [name],
             agentOutputs := AList.update name (res_output result) (agentOutputs st),
             agentProgress := AList.update name 100 (agentProgress st), currentAgent := None\<rparr>,
          updateProjectState E pid
            (st\<lparr>completedAgents := completedAgents st @ [name],
               agentOutputs := AList.update name (res_output result) (agentOutputs st),
               agentProgress := AList.update name 100 (agentProgress st), currentAgent := None\<rparr>)
            (emit (AgentCompleted pid name)
               (case files result of
                  None \<Rightarrow>
                    in_place pid
                      (st\<lparr>currentAgent := Some name,
                         completedAgents := completedAgents st @ [name],
                         agentOutputs := AList.update name (res_output result) (agentOutputs st),
                         agentProgress := AList.update name 100 (agentProgress st)\<rparr>) w3
                | Some fs \<Rightarrow>
                    save_files E pid fs
                      (in_place pid
                         (st\<lparr>currentAgent := Some name,
                            completedAgents := completedAgents st @ [name],
                            agentOutputs := AList.update name (res_output result) (agentOutputs st),
                            agentProgress := AList.update name 100 (agentProgress st)\<rparr>) w3))))"
proof (cases "agents E name")
  case None
  then show ?thesis
    using that(1) by (simp add: run_agent_def st1_def w2_def Let_def)
next
  case (Some agent)
  obtain x w3 where run: "agent pid cfg (agentOutputs st) w2 = (x, w3)"
    by (cases "agent pid cfg (agentOutputs st) w2")
  show ?thesis
  proof (cases x)
    case (Inl msg)
    then show ?thesis
      using that(2) [OF Some] run Some
      by (simp add: run_agent_def Let_def st1_def w2_def)
  next
    case (Inr result)
    show ?thesis
    proof (cases "success result")
      case True
      then show ?thesis
        using that(4) [OF Some] run Some Inr
        by (simp add: run_agent_def Let_def st1_def w2_def split: option.split)
    next
      case False
      then show ?thesis
        using that(3) [OF Some] run Some Inr
        by (simp add: run_agent_def Let_def st1_def w2_def split_beta)
    qed
  qed
qed

lemma generateFixes_emitted [simp]: "emitted (snd (generateFixes E issues ctv w)) = emitted w"
  by (simp add: generateFixes_def split_beta)

lemma caught_emitted [simp]:
  "emitted (snd (caught E name pid what msg w))
     = emitted w @ [LogEvent \<lparr>log_projectId = pid, agentName = name, log_level = Error,
                              message = what @ msg, metadata = None\<rparr>]"
  by (simp add: caught_def)

lemma perform_action_emitted: "prefix xs (emitted w) \<Longrightarrow> prefix xs (emitted (perform_action E name pid w a))"
  by (cases a) (simp_all add: perform_action_def)

lemma foldl_perform_action_emitted:
  "prefix xs (emitted w) \<Longrightarrow> prefix xs (emitted (foldl (perform_action E name pid) w acts))"
  by (induction acts arbitrary: w) (simp_all add: perform_action_emitted)

lemma stages_emitted:
  "prefix (emitted w) (emitted (snd (RequirementAgent_execute E name pid cfg prev w)))"
  "prefix (emitted w) (emitted (snd (FrontendAgent_execute E name pid cfg prev w)))"
  "prefix (emitted w) (emitted (snd (BackendAgent_execute E name pid cfg prev w)))"
  "prefix (emitted w) (emitted (snd (ValidatorAgent_execute E name pid cfg prev w)))"
  "prefix (emitted w) (emitted (snd (DeploymentAgent_execute E name pid cfg prev w)))"
  by (simp_all add: RequirementAgent_execute_def FrontendAgent_execute_def BackendAgent_execute_def
        ValidatorAgent_execute_def DeploymentAgent_execute_def Let_def split_beta
        foldl_perform_action_emitted split: option.split sum.split)

lemma agents_emitted:
  assumes "agents E name = Some agent"
  shows "prefix (emitted w) (emitted (snd (agent pid cfg prev w)))"
  using assms by (auto simp: agents_def returned_def stages_emitted split: if_splits)

lemma agents_run:
  assumes "agents E name = Some agent" and "agent pid cfg prev w = (x, w')"
  shows "getProject k w' = getProject k w" and "projectFiles w' = projectFiles w"
    and "prefix (emitted w) (emitted w')"
  using agents_fields [OF assms(1), of pid cfg prev w] agents_emitted [OF assms(1), of w pid cfg prev]
    assms(2)
  by (simp_all add: getProject_def)

lemma files_ok_cong: "projectFiles w' = projectFiles w \<Longrightarrow> files_ok w' = files_ok w"
  by (simp add: files_ok_def)

lemma list_all_update:
  "list_all P al \<Longrightarrow> P (k, v) \<Longrightarrow> list_all P (AList.update k v al)"
  by (induction al) auto

lemma addProjectFile_ok:
  "files_ok w \<Longrightarrow> file_size f = length (content f) \<Longrightarrow> files_ok (addProjectFile E f w)"
  by (simp add: files_ok_def addProjectFile_def Let_def list_all_update)

lemma save_files_ok: "files_ok w \<Longrightarrow> files_ok (save_files E pid fs w)"
  by (induction fs arbitrary: w) (simp_all add: addProjectFile_ok)

lemma updateProjectFile_ok: "files_ok w \<Longrightarrow> files_ok (updateProjectFile fid c w)"
  by (simp add: files_ok_def updateProjectFile_def list_all_update split: option.split)

lemma run_agent_completedAgents:
  assumes "run_agent E pid cfg name st w = (r, st', w')"
  shows "completedAgents st' = (if r = None then completedAgents st @ [name] else completedAgents st)"
  using assms by (cases rule: run_agent_cases [of E name pid cfg st w]) auto

lemma run_agent_outputs:
  assumes "run_agent E pid cfg name st w = (r, st', w')"
  shows "fst ` set (agentOutputs st')
           = (if r = None then insert name (fst ` set (agentOutputs st)) else fst ` set (agentOutputs st))"
  using assms by (cases rule: run_agent_cases [of E name pid cfg st w]) (clarsimp simp: dom_update)+

lemma run_agent_others:
  assumes "run_agent E pid cfg name st w = (r, st', w')" and "k \<noteq> pid"
  shows "getProject k w' = getProject k w"
  using assms by (cases rule: run_agent_cases [of E name pid cfg st w]) (auto simp: agents_run(1) split: option.splits)

lemma run_agent_stored:
  assumes "run_agent E pid cfg name st w = (r, st', w')" and "getProject pid w = Some p"
  shows "\<exists>u. getProject pid w' = Some (p\<lparr>state := Some st', updatedAt := u\<rparr>)"
  using assms by (cases rule: run_agent_cases [of E name pid cfg st w]) (auto simp: agents_run(1) split: option.splits)

lemma run_agent_files:
  assumes "run_agent E pid cfg name st w = (r, st', w')" and "files_ok w"
  shows "files_ok w'"
proof (cases rule: run_agent_cases [of E name pid cfg st w])
  case not_found
  then show ?thesis using assms by (auto simp: files_ok_def)
next
  case (thrown agent msg w3)
  then show ?thesis using assms agents_run(2) [OF thrown(1,2)] by (auto simp: files_ok_def)
next
  case (failed agent result w3)
  then show ?thesis using assms agents_run(2) [OF failed(1,2)] by (auto simp: files_ok_def)
next
  case (succeeded agent result w3)
  have "files_ok w3"
    using assms(2) agents_run(2) [OF succeeded(1,2)] by (simp add: files_ok_def)
  then have "files_ok (in_place pid s w3)" for s
    by (simp add: files_ok_def)
  then have "files_ok (case files result of None \<Rightarrow> in_place pid s w3
               | Some fs \<Rightarrow> save_files E pid fs (in_place pid s w3))" for s
    by (simp add: save_files_ok split: option.split)
  then show ?thesis
    using assms(1) succeeded(4) by (auto simp: files_ok_def [of "updateProjectState _ _ _ _"] files_ok_def [of "emit _ _"]) (simp add: files_ok_def)
qed

lemma run_agent_emitted:
  assumes "run_agent E pid cfg name st w = (r, st', w')"
  shows "prefix (emitted w @ [AgentStarted pid name]) (emitted w')"
proof (cases rule: run_agent_cases [of E name pid cfg st w])
  case not_found
  then show ?thesis using assms by auto
next
  case (thrown agent msg w3)
  then show ?thesis using assms agents_run(3) [OF thrown(1,2)] by auto
next
  case (failed agent result w3)
  then show ?thesis using assms agents_run(3) [OF failed(1,2)] by auto
next
  case (succeeded agent result w3)
  then show ?thesis using assms agents_run(3) [OF succeeded(1,2)] by (auto split: option.splits)
qed

section \<open>The loop\<close>

lemma run_agents_induct [consumes 1, case_names finished skip unmet thrown continue]:
  assumes run: "run_agents E pid cfg cfgs st w = (r, st', w')"
    and finished: "\<And>st w. P [] st w None st w"
    and skip: "\<And>c rest st w r st' w'.
        agent_name c \<in> set (completedAgents st) \<Longrightarrow>
        run_agents E pid cfg rest st w = (r, st', w') \<Longrightarrow>
        P rest st w r st' w' \<Longrightarrow> P (c # rest) st w r st' w'"
    and unmet: "\<And>c rest st w.
        agent_name c \<notin> set (completedAgents st) \<Longrightarrow> \<not> dependenciesMet st c \<Longrightarrow>
        P (c # rest) st w
          (Some (''Agent '' @ agent_name c @ '' dependencies not met: ''
                   @ join '', '' (missingDeps st c))) st w"
    and thrown: "\<And>c rest st w msg st1 w1.
        agent_name c \<notin> set (completedAgents st) \<Longrightarrow> dependenciesMet st c \<Longrightarrow>
        run_agent E pid cfg (agent_name c) st w = (Some msg, st1, w1) \<Longrightarrow>
        P (c # rest) st w (Some msg) st1 w1"
    and continue: "\<And>c rest st w st1 w1 r st' w'.
        agent_name c \<notin> set (completedAgents st) \<Longrightarrow> dependenciesMet st c \<Longrightarrow>
        run_agent E pid cfg (agent_name c) st w = (None, st1, w1) \<Longrightarrow>
        run_agents E pid cfg rest st1 w1 = (r, st', w') \<Longrightarrow>
        P rest st1 w1 r st' w' \<Longrightarrow> P (c # rest) st w r st' w'"
  shows "P cfgs st w r st' w'"
  using run
proof (induction cfgs arbitrary: st w)
  case Nil
  then show ?case using finished by simp
next
  case (Cons c rest)
  show ?case
  proof (cases "agent_name c \<in> set (completedAgents st)")
    case True
    then show ?thesis using Cons skip by simp
  next
    case new: False
    show ?thesis
    proof (cases "dependenciesMet st c")
      case False
      then show ?thesis using Cons.prems new unmet by auto
    next
      case met: True
      obtain r1 st1 w1 where step: "run_agent E pid cfg (agent_name c) st w = (r1, st1, w1)"
        by (cases "run_agent E pid cfg (agent_name c) st w") auto
      show ?thesis
      proof (cases r1)
        case None
        then have "run_agents E pid cfg rest st1 w1 = (r, st', w')"
          using Cons.prems new met step by simp
        then show ?thesis
          using continue [OF new met step [unfolded None]] Cons.IH by simp
      next
        case (Some msg)
        then show ?thesis
          using Cons.prems new met step thrown [OF new met step [unfolded Some]] by simp
      qed
    qed
  qed
qed

lemma run_agents_others:
  assumes "run_agents E pid cfg cfgs st w = (r, st', w')" and "k \<noteq> pid"
  shows "getProject k w' = getProject k w"
  using assms by (induction rule: run_agents_induct) (simp_all add: run_agent_others)

lemma run_agents_files:
  assumes "run_agents E pid cfg cfgs st w = (r, st', w')" and "files_ok w"
  shows "files_ok w'"
  using assms by (induction rule: run_agents_induct) (simp_all add: run_agent_files)

lemma run_agents_emitted:
  assumes "run_agents E pid cfg cfgs st w = (r, st', w')"
  shows "prefix (emitted w) (emitted w')"
  using assms
proof (induction rule: run_agents_induct)
  case (thrown c rest st w msg st1 w1)
  then show ?case using run_agent_emitted [OF thrown(3)] by (auto dest: append_prefixD)
next
  case (continue c rest st w st1 w1 r st' w')
  then show ?case using run_agent_emitted [OF continue(3)] by (auto dest: append_prefixD)
qed simp_all

lemma run_agents_completed:
  assumes "run_agents E pid cfg cfgs st w = (r, st', w')"
  shows "prefix (completedAgents st) (completedAgents st')"
  using assms
proof (induction rule: run_agents_induct)
  case (thrown c rest st w msg st1 w1)
  then show ?case using run_agent_completedAgents [OF thrown(3)] by simp
next
  case (continue c rest st w st1 w1 r st' w')
  then show ?case using run_agent_completedAgents [OF continue(3)] by (auto dest: append_prefixD)
qed simp_all

lemma run_agents_all:
  assumes "run_agents E pid cfg cfgs st w = (None, st', w')" and "c \<in> set cfgs"
  shows "agent_name c \<in> set (completedAgents st')"
proof -
  have "r = None \<longrightarrow> (\<forall>c\<in>set cfgs. agent_name c \<in> set (completedAgents st'))"
    if "run_agents E pid cfg cfgs st w = (r, st', w')" for r
    using that
  proof (induction rule: run_agents_induct)
    case (skip c rest st w r st' w')
    then show ?case using run_agents_completed [OF skip(2)] by (auto dest: set_mono_prefix)
  next
    case (continue c rest st w st1 w1 r st' w')
    then show ?case
      using run_agents_completed [OF continue(4)] run_agent_completedAgents [OF continue(3)]
      by (auto dest: set_mono_prefix)
  qed simp_all
  then show ?thesis using assms by blast
qed

lemma run_agents_synced:
  assumes "run_agents E pid cfg cfgs st w = (r, st', w')" and "synced pid st w"
  shows "synced pid st' w'"
  using assms
proof (induction rule: run_agents_induct)
  case (thrown c rest st w msg st1 w1)
  then show ?case using run_agent_stored [OF thrown(3)] by (auto simp: synced_def split: option.splits)
next
  case (continue c rest st w st1 w1 r st' w')
  then show ?case using run_agent_stored [OF continue(3)] by (auto simp: synced_def split: option.splits)
qed simp_all

lemma run_agents_kept:
  assumes "run_agents E pid cfg cfgs st w = (r, st', w')" and "getProject pid w = Some p"
  shows "\<exists>p'. getProject pid w' = Some p' \<and> status p' = status p \<and> config p' = config p"
  using assms
proof (induction arbitrary: p rule: run_agents_induct)
  case (thrown c rest st w msg st1 w1)
  then show ?case using run_agent_stored [OF thrown(3)] by fastforce
next
  case (continue c rest st w st1 w1 r st' w')
  from run_agent_stored [OF continue(3) continue(6)]
  obtain u where "getProject pid w1 = Some (p\<lparr>state := Some st1, updatedAt := u\<rparr>)" by blast
  from continue(5) [OF this] show ?case by simp
qed simp_all

lemma closed_under_deps_snoc:
  assumes "closed_under_deps cfgs0 completed" and "c \<in> set cfgs0"
    and "distinct (map agent_name cfgs0)" and "set (dependencies c) \<subseteq> set completed"
  shows "closed_under_deps cfgs0 (completed @ [agent_name c])"
  unfolding closed_under_deps_def list_all_iff
proof
  fix c'
  assume c': "c' \<in> set cfgs0"
  show "agent_name c' \<notin> set (completed @ [agent_name c])
          \<or> set (dependencies c') \<subseteq> set (completed @ [agent_name c])"
  proof (cases "agent_name c' = agent_name c")
    case True
    then have "c' = c"
      using assms(2,3) c' by (meson distinct_map inj_onD)
    then show ?thesis using assms(4) by auto
  next
    case False
    then show ?thesis
      using assms(1) c' by (auto simp: closed_under_deps_def list_all_iff)
  qed
qed

lemma run_agents_closed:
  assumes "run_agents E pid cfg cfgs st w = (r, st', w')"
    and "set cfgs \<subseteq> set cfgs0" and "distinct (map agent_name cfgs0)"
    and "closed_under_deps cfgs0 (completedAgents st)"
  shows "closed_under_deps cfgs0 (completedAgents st')"
  using assms
proof (induction rule: run_agents_induct)
  case (thrown c rest st w msg st1 w1)
  then show ?case using run_agent_completedAgents [OF thrown(3)] by simp
next
  case (continue c rest st w st1 w1 r st' w')
  have "set (dependencies c) \<subseteq> set (completedAgents st)"
    using continue(2) by (auto simp: dependenciesMet_def list_all_iff)
  then have "closed_under_deps cfgs0 (completedAgents st @ [agent_name c])"
    using closed_under_deps_snoc [of cfgs0 "completedAgents st" c] continue by simp
  then show ?case
    using continue run_agent_completedAgents [OF continue(3)] by simp
qed simp_all

lemma run_agents_keys:
  assumes "run_agents E pid cfg cfgs st w = (r, st', w')"
    and "fst ` set (agentOutputs st) = set (completedAgents st)"
  shows "fst ` set (agentOutputs st') = set (completedAgents st')"
  using assms
proof (induction rule: run_agents_induct)
  case (thrown c rest st w msg st1 w1)
  then show ?case
    using run_agent_completedAgents [OF thrown(3)] run_agent_outputs [OF thrown(3)] by simp
next
  case (continue c rest st w st1 w1 r st' w')
  then show ?case
    using run_agent_completedAgents [OF continue(3)] run_agent_outputs [OF continue(3)] by simp
qed simp_all

lemma distinct_agentConfigs: "distinct (map agent_name agentConfigs)"
  by (simp add: agentConfigs_def)

lemma run_agents_state_ok:
  assumes "run_agents E pid cfg agentConfigs st w = (r, st', w')" and "state_ok st"
  shows "state_ok st'"
  using assms run_agents_closed [OF assms(1) subset_refl distinct_agentConfigs]
    run_agents_keys [OF assms(1)]
  by (simp add: state_ok_def)

lemma state_ok_initial: "state_ok initialState"
  by (simp add: state_ok_def initialState_def closed_under_deps_def list_all_iff)

lemma not_all_completed_initial: "\<not> all_completed initialState"
  by (simp add: all_completed_def initialState_def agentConfigs_def)

text \<open>What \<open>executeAgentPipeline\<close> makes of a project whose status is not \<open>completed\<close>.\<close>

lemma pipeline_project_ok:
  assumes run: "executeAgentPipeline E pid p w = (r, w')"
    and p: "getProject pid w = Some p"
    and ok: "case state p of None \<Rightarrow> True | Some st \<Rightarrow> state_ok st"
    and st: "status p \<noteq> ''completed''"
  shows "\<exists>p'. getProject pid w' = Some p' \<and> project_ok p' \<and> config p' = config p
           \<and> status p' = (if r = None then ''completed'' else status p)"
proof -
  define st0 where "st0 = (case state p of None \<Rightarrow> initialState | Some st \<Rightarrow> st)"
  obtain r1 st1 w1 where loop: "run_agents E pid (config p) agentConfigs st0 w = (r1, st1, w1)"
    by (cases "run_agents E pid (config p) agentConfigs st0 w") auto
  have ok0: "state_ok st0"
    using ok by (auto simp: st0_def state_ok_initial split: option.splits)
  have sync0: "synced pid st0 w"
    using p by (simp add: synced_def st0_def)
  from run_agents_kept [OF loop p] obtain p1 where
    p1: "getProject pid w1 = Some p1" "status p1 = status p" "config p1 = config p"
    by blast
  have sync1: "st1 = (case state p1 of None \<Rightarrow> initialState | Some s \<Rightarrow> s)"
    using run_agents_synced [OF loop sync0] p1(1) by (simp add: synced_def)
  have ok1: "state_ok st1"
    by (rule run_agents_state_ok [OF loop ok0])
  show ?thesis
  proof (cases r1)
    case None
    then have all: "all_completed st1"
      using run_agents_all [OF loop [unfolded None]] by (simp add: all_completed_def list_all_iff)
    then have "state p1 = Some st1"
      using sync1 not_all_completed_initial by (cases "state p1") auto
    then show ?thesis
      using run loop None p1 ok1 all
      by (auto simp: executeAgentPipeline_def st0_def [symmetric] project_ok_def)
  next
    case (Some msg)
    then show ?thesis
      using run loop p1 ok1 sync1 st
      by (auto simp: executeAgentPipeline_def st0_def [symmetric] project_ok_def split: option.splits)
  qed
qed

lemma pipeline_others:
  assumes "executeAgentPipeline E pid p w = (r, w')" and "k \<noteq> pid"
  shows "getProject k w' = getProject k w"
proof -
  obtain r1 st1 w1 where loop:
    "run_agents E pid (config p) agentConfigs
       (case state p of None \<Rightarrow> initialState | Some st \<Rightarrow> st) w = (r1, st1, w1)"
    by (cases "run_agents E pid (config p) agentConfigs
                 (case state p of None \<Rightarrow> initialState | Some st \<Rightarrow> st) w") auto
  show ?thesis
    using assms loop run_agents_others [OF loop assms(2)]
    by (cases r1) (auto simp: executeAgentPipeline_def)
qed

lemma pipeline_files:
  assumes "executeAgentPipeline E pid p w = (r, w')" and "files_ok w"
  shows "files_ok w'"
proof -
  obtain r1 st1 w1 where loop:
    "run_agents E pid (config p) agentConfigs
       (case state p of None \<Rightarrow> initialState | Some st \<Rightarrow> st) w = (r1, st1, w1)"
    by (cases "run_agents E pid (config p) agentConfigs
                 (case state p of None \<Rightarrow> initialState | Some st \<Rightarrow> st) w") auto
  show ?thesis
    using assms loop run_agents_files [OF loop assms(2)]
    by (cases r1) (auto simp: executeAgentPipeline_def files_ok_def)
qed

lemma project_ok_status:
  "project_ok p \<Longrightarrow> s \<noteq> ''completed'' \<Longrightarrow> project_ok (p\<lparr>status := s, updatedAt := u\<rparr>)"
  by (auto simp: project_ok_def split: option.splits)

lemma files_ok_simps [simp]:
  "files_ok (emit e w) = files_ok w"
  "files_ok (updateProjectStatus E pid s w) = files_ok w"
  "files_ok (updateProjectState E pid st w) = files_ok w"
  "files_ok (snd (createProject E ins w)) = files_ok w"
  by (simp_all add: files_ok_def)

lemma world_ok_new: "world_ok MemStorage_new"
  by (simp add: world_ok_def files_ok_def getProject_def MemStorage_new_def)

lemma world_ok_create: "world_ok w \<Longrightarrow> world_ok (snd (createProject E ins w))"
  by (auto simp: world_ok_def project_ok_def)

lemma world_ok_pause: "world_ok w \<Longrightarrow> world_ok (pauseProject E pid w)"
  by (auto simp: world_ok_def pauseProject_def project_ok_status split: if_splits)

lemma world_ok_replace: "world_ok w \<Longrightarrow> world_ok (updateProjectFile fid c w)"
  by (simp add: world_ok_def updateProjectFile_ok)

lemma world_ok_pipeline:
  assumes run: "executeAgentPipeline E pid p w = (r, w')"
    and w: "files_ok w" "\<forall>k q. k \<noteq> pid \<longrightarrow> getProject k w = Some q \<longrightarrow> project_ok q"
    and p: "getProject pid w = Some p"
    and ok: "case state p of None \<Rightarrow> True | Some st \<Rightarrow> state_ok st"
    and st: "status p \<noteq> ''completed''"
  shows "world_ok w'"
  unfolding world_ok_def
proof (intro conjI allI impI)
  show "files_ok w'" by (rule pipeline_files [OF run w(1)])
next
  fix k q
  assume q: "getProject k w' = Some q"
  show "project_ok q"
  proof (cases "k = pid")
    case True
    then show ?thesis using pipeline_project_ok [OF run p ok st] q by auto
  next
    case False
    then show ?thesis using pipeline_others [OF run False] q w(2) by auto
  qed
qed

lemma world_ok_resume:
  assumes "world_ok w"
  shows "world_ok (snd (resumeProject E pid w))"
proof (cases "getProject pid w")
  case None
  then show ?thesis using assms by (simp add: resumeProject_def)
next
  case (Some p)
  let ?p1 = "p\<lparr>status := ''running'', updatedAt := clock E (ticks w)\<rparr>"
  let ?w2 = "emit (ProjectResumed pid) (updateProjectStatus E pid ''running'' w)"
  have p1: "getProject pid ?w2 = Some ?p1" using Some by simp
  have eq: "resumeProject E pid w = executeAgentPipeline E pid ?p1 ?w2"
    using Some by (simp add: resumeProject_def Let_def stored_def)
  have "world_ok (snd (executeAgentPipeline E pid ?p1 ?w2))"
  proof (rule world_ok_pipeline [OF _ _ _ p1])
    show "executeAgentPipeline E pid ?p1 ?w2
            = (fst (executeAgentPipeline E pid ?p1 ?w2), snd (executeAgentPipeline E pid ?p1 ?w2))"
      by simp
    show "files_ok ?w2" using assms by (simp add: world_ok_def)
    show "\<forall>k q. k \<noteq> pid \<longrightarrow> getProject k ?w2 = Some q \<longrightarrow> project_ok q"
      using assms by (simp add: world_ok_def)
    show "case state ?p1 of None \<Rightarrow> True | Some st \<Rightarrow> state_ok st"
      using assms Some by (auto simp: world_ok_def project_ok_def split: option.splits)
    show "status ?p1 \<noteq> ''completed''" by simp
  qed
  then show ?thesis by (simp add: eq)
qed

lemma world_ok_start:
  assumes "world_ok w"
  shows "world_ok (startProject E pid w)"
proof (cases "getProject pid w")
  case None
  then show ?thesis
    using assms by (auto simp: startProject_def world_ok_def split: if_splits)
next
  case (Some p)
  let ?w1 = "updateProjectStatus E pid ''running'' w"
  let ?p3 = "p\<lparr>status := ''running'', updatedAt := clock E (ticks w), state := Some initialState,
               updatedAt := clock E (ticks ?w1)\<rparr>"
  let ?w3 = "emit (ProjectStarted pid) (updateProjectState E pid initialState ?w1)"
  have p3: "getProject pid ?w3 = Some ?p3" using Some by simp
  obtain r w4 where run: "executeAgentPipeline E pid ?p3 ?w3 = (r, w4)"
    by (cases "executeAgentPipeline E pid ?p3 ?w3") auto
  have ok4: "world_ok w4"
  proof (rule world_ok_pipeline [OF run _ _ p3])
    show "files_ok ?w3" using assms by (simp add: world_ok_def)
    show "\<forall>k q. k \<noteq> pid \<longrightarrow> getProject k ?w3 = Some q \<longrightarrow> project_ok q"
      using assms by (simp add: world_ok_def)
    show "case state ?p3 of None \<Rightarrow> True | Some st \<Rightarrow> state_ok st"
      by (simp add: state_ok_initial)
    show "status ?p3 \<noteq> ''completed''" by simp
  qed
  have eq: "startProject E pid w
              = (case r of None \<Rightarrow> w4
                 | Some thrown \<Rightarrow> emit (ProjectError pid thrown) (updateProjectStatus E pid ''error'' w4))"
    using Some run by (simp add: startProject_def Let_def stored_def split: option.split)
  show ?thesis
    using ok4 by (cases r) (auto simp: eq world_ok_def project_ok_status split: if_splits)
qed

lemma world_ok_save: "world_ok w \<Longrightarrow> world_ok (save_files E pid fs w)"
  by (simp add: world_ok_def save_files_ok)

theorem reachable_ok: "reachable w \<Longrightarrow> world_ok w"
  by (induction rule: reachable.induct)
     (simp_all add: world_ok_new world_ok_create world_ok_start world_ok_pause world_ok_resume
        world_ok_replace world_ok_save)

section \<open>Status, state and lifecycle events through the steps\<close>

lemma lifecycle_emit [simp]:
  "lifecycle (emit e w) = (if is_stage_event e then lifecycle w else lifecycle w @ [e])"
  by (simp add: lifecycle_def)

lemma lifecycle_cong: "emitted w' = emitted w \<Longrightarrow> lifecycle w' = lifecycle w"
  by (simp add: lifecycle_def)

lemma lifecycle_simps [simp]:
  "lifecycle (agent_log E n p l m w) = lifecycle w"
  "lifecycle (updateProgress n k w) = lifecycle w"
  "lifecycle (snd (generateContent E req w)) = lifecycle w"
  "lifecycle (addProjectFile E f w) = lifecycle w"
  "lifecycle (save_files E pid fs w) = lifecycle w"
  "lifecycle (updateProjectFile fid c w) = lifecycle w"
  "lifecycle (updateProjectStatus E pid s w) = lifecycle w"
  "lifecycle (updateProjectState E pid st w) = lifecycle w"
  "lifecycle (in_place pid st w) = lifecycle w"
  "lifecycle (snd (record_error E name msg st w)) = lifecycle w"
  "lifecycle (snd (createProject E ins w)) = lifecycle w"
  "lifecycle (snd (generateFixes E issues ctv w)) = lifecycle w"
  "lifecycle (snd (caught E name pid what msg w)) = lifecycle w"
  by (simp_all add: lifecycle_def)

lemma lifecycle_perform_action [simp]: "lifecycle (perform_action E name pid w a) = lifecycle w"
  by (cases a) (simp_all add: perform_action_def)

lemma lifecycle_foldl_perform_action [simp]:
  "lifecycle (foldl (perform_action E name pid) w acts) = lifecycle w"
  by (induction acts arbitrary: w) simp_all

lemma lifecycle_stages [simp]:
  "lifecycle (snd (RequirementAgent_execute E name pid cfg prev w)) = lifecycle w"
  "lifecycle (snd (FrontendAgent_execute E name pid cfg prev w)) = lifecycle w"
  "lifecycle (snd (BackendAgent_execute E name pid cfg prev w)) = lifecycle w"
  "lifecycle (snd (ValidatorAgent_execute E name pid cfg prev w)) = lifecycle w"
  "lifecycle (snd (DeploymentAgent_execute E name pid cfg prev w)) = lifecycle w"
  by (simp_all add: RequirementAgent_execute_def FrontendAgent_execute_def BackendAgent_execute_def
        ValidatorAgent_execute_def DeploymentAgent_execute_def Let_def split_beta
        split: option.split sum.split)

lemma agents_lifecycle:
  assumes "agents E name = Some agent" and "agent pid cfg prev w = (x, w')"
  shows "lifecycle w' = lifecycle w"
proof -
  have "lifecycle (snd (agent pid cfg prev w)) = lifecycle w"
    using assms(1) by (auto simp: agents_def returned_def split: if_splits)
  then show ?thesis by (simp add: assms(2))
qed

lemma status_of_simps [simp]:
  "status_of k (emit e w) = status_of k w"
  "status_of k (updateProjectStatus E pid s w)
     = (if k = pid then map_option (\<lambda>x. s) (status_of pid w) else status_of k w)"
  "status_of k (updateProjectState E pid st w) = status_of k w"
  "status_of k (in_place pid st w) = status_of k w"
  "status_of k (save_files E pid fs w) = status_of k w"
  "status_of k (updateProjectFile fid c w) = status_of k w"
  "status_of k (snd (record_error E name msg st w)) = status_of k w"
  by (auto simp: status_of_def option.map_comp comp_def)

lemma state_of_simps [simp]:
  "state_of k (emit e w) = state_of k w"
  "state_of k (updateProjectStatus E pid s w) = state_of k w"
  "state_of k (updateProjectState E pid st w)
     = (if k = pid then map_option (\<lambda>x. st) (getProject pid w) else state_of k w)"
  "state_of k (in_place pid st w)
     = (if k = pid then map_option (\<lambda>x. st) (getProject pid w) else state_of k w)"
  "state_of k (save_files E pid fs w) = state_of k w"
  "state_of k (updateProjectFile fid c w) = state_of k w"
  "state_of k (snd (record_error E name msg st w)) = state_of k w"
  by (cases "getProject pid w"; simp add: state_of_def)+

lemma present_simps [simp]:
  "(getProject k (updateProjectStatus E pid s w) = None) = (getProject k w = None)"
  "(getProject k (updateProjectState E pid st w) = None) = (getProject k w = None)"
  "(getProject k (in_place pid st w) = None) = (getProject k w = None)"
  by auto

lemma agents_status:
  assumes "agents E name = Some agent" and "agent pid cfg prev w = (x, w')"
  shows "status_of k w' = status_of k w" and "state_of k w' = state_of k w"
  using agents_run(1) [OF assms] by (simp_all add: status_of_def state_of_def)

lemma run_agent_status:
  "status_of k (snd (snd (run_agent E pid cfg name st w))) = status_of k w"
proof (cases rule: run_agent_cases [of E name pid cfg st w])
  case not_found
  then show ?thesis by simp
next
  case (thrown agent msg w3)
  then show ?thesis using agents_status(1) [OF thrown(1,2)] by simp
next
  case (failed agent result w3)
  then show ?thesis using agents_status(1) [OF failed(1,2)] by simp
next
  case (succeeded agent result w3)
  then show ?thesis using agents_status(1) [OF succeeded(1,2)] by (simp split: option.split)
qed

lemma run_agent_present:
  "(getProject k (snd (snd (run_agent E pid cfg name st w))) = None) = (getProject k w = None)"
  using run_agent_status [of k E pid cfg name st w] unfolding status_of_def
  by (metis option.map_disc_iff)

lemma run_agent_state_of:
  "state_of pid (snd (snd (run_agent E pid cfg name st w)))
     = map_option (\<lambda>x. fst (snd (run_agent E pid cfg name st w))) (getProject pid w)"
proof (cases "getProject pid w")
  case None
  then show ?thesis using run_agent_present [of pid E pid cfg name st w] by (simp add: state_of_def)
next
  case (Some p)
  then show ?thesis
    using run_agent_stored [of E pid cfg name st w "fst (run_agent E pid cfg name st w)"
                               "fst (snd (run_agent E pid cfg name st w))"
                               "snd (snd (run_agent E pid cfg name st w))" p]
    by (auto simp: state_of_def)
qed

section \<open>The outcome of one stage\<close>

lemma run_agent_outcome_all:
  fixes E pid cfg name st w
  defines "w2 \<equiv> emit (AgentStarted pid name) (updateProjectState E pid (st\<lparr>currentAgent := Some name\<rparr>) w)"
  assumes agent: "agents E name = Some agent"
  shows "fst (run_agent E pid cfg name st w)
           = (case fst (agent pid cfg (agentOutputs st) w2) of
                Inl msg \<Rightarrow> Some msg
              | Inr result \<Rightarrow>
                  if success result then None
                  else Some (''Agent '' @ name @ '' failed: '' @ template (error result)))
    \<and> fst (snd (run_agent E pid cfg name st w))
           = (case fst (agent pid cfg (agentOutputs st) w2) of
                Inl msg \<Rightarrow>
                  st\<lparr>currentAgent := Some name,
                     errors := errors st
                       @ [\<lparr>err_agent = name, err_error = msg,
                           err_timestamp = clock E (ticks (snd (agent pid cfg (agentOutputs st) w2)))\<rparr>]\<rparr>
              | Inr result \<Rightarrow>
                  if success result
                  then st\<lparr>completedAgents := completedAgents st @ [name],
                          agentOutputs := AList.update name (res_output result) (agentOutputs st),
                          agentProgress := AList.update name 100 (agentProgress st),
                          currentAgent := None\<rparr>
                  else st\<lparr>currentAgent := Some name,
                          errors := errors st
                            @ [\<lparr>err_agent = name, err_error = or_else (error result) ''Unknown error'',
                                err_timestamp = clock E (ticks (snd (agent pid cfg (agentOutputs st) w2)))\<rparr>,
                               \<lparr>err_agent = name,
                                err_error = ''Agent '' @ name @ '' failed: '' @ template (error result),
                                err_timestamp =
                                  clock E (Suc (ticks (snd (agent pid cfg (agentOutputs st) w2))))\<rparr>]\<rparr>)
    \<and> lifecycle (snd (snd (run_agent E pid cfg name st w)))
           = lifecycle w
             @ [AgentStarted pid name,
                case fst (agent pid cfg (agentOutputs st) w2) of
                  Inl msg \<Rightarrow> AgentError pid name msg
                | Inr result \<Rightarrow>
                    if success result then AgentCompleted pid name
                    else AgentError pid name (''Agent '' @ name @ '' failed: '' @ template (error result))]"
proof (cases rule: run_agent_cases [of E name pid cfg st w])
  case not_found
  then show ?thesis using agent by simp
next
  case (thrown agent' msg w3)
  then show ?thesis using agent agents_lifecycle [OF thrown(1,2)] by (simp add: w2_def)
next
  case (failed agent' result w3)
  then show ?thesis using agent agents_lifecycle [OF failed(1,2)] by (simp add: w2_def)
next
  case (succeeded agent' result w3)
  then show ?thesis using agent agents_lifecycle [OF succeeded(1,2)]
    by (simp add: w2_def split: option.split)
qed

lemmas run_agent_outcome =
  run_agent_outcome_all [THEN conjunct1]
  run_agent_outcome_all [THEN conjunct2, THEN conjunct1]
  run_agent_outcome_all [THEN conjunct2, THEN conjunct2]

lemma run_agents_Cons_next:
  assumes "agent_name c \<notin> set (completedAgents st)" and "dependenciesMet st c"
    and "fst (run_agent E pid cfg (agent_name c) st w) = None"
  shows "run_agents E pid cfg (c # rest) st w
           = run_agents E pid cfg rest (fst (snd (run_agent E pid cfg (agent_name c) st w)))
               (snd (snd (run_agent E pid cfg (agent_name c) st w)))"
  using assms by (simp add: split_beta)

lemma run_agents_Cons_thrown:
  assumes "agent_name c \<notin> set (completedAgents st)" and "dependenciesMet st c"
    and "fst (run_agent E pid cfg (agent_name c) st w) = Some msg"
  shows "run_agents E pid cfg (c # rest) st w = run_agent E pid cfg (agent_name c) st w"
  using assms by (simp add: split_beta prod_eq_iff)

section \<open>What the stages return\<close>

lemma requirement_result:
  "fst (RequirementAgent_execute E name pid cfg prev w)
     = (if ai_success (gemini E (length (requests w)) (RequirementPrompt cfg))
        then \<lparr>success = True,
               res_output = Some (RequirementOutput
                  (ai_content (gemini E (length (requests w)) (RequirementPrompt cfg)))
                  (parseRequirements E (ai_content (gemini E (length (requests w)) (RequirementPrompt cfg))))
                  cfg),
               error = None, files = None\<rparr>
        else failed (or_else (ai_error (gemini E (length (requests w)) (RequirementPrompt cfg)))
                       ''Failed to analyze requirements''))"
  by (simp add: RequirementAgent_execute_def Let_def split_beta)

lemma frontend_result:
  assumes "lookup_output prev ''Requirement'' = Some req"
  shows "fst (FrontendAgent_execute E name pid cfg prev w)
     = (let r = gemini E (length (requests w)) (FrontendPrompt (template (prop_specification req)) cfg)
        in if ai_success r
           then (case frontend_parseCodeIntoFiles E (ai_content r) cfg of
                   Inl msg \<Rightarrow> failed msg
                 | Inr fs \<Rightarrow>
                     \<lparr>success = True,
                      res_output = Some (FrontendOutput (ai_content r) (length fs)
                                     (frontend_extractArchitectureInfo E (ai_content r))),
                      error = None, files = Some fs\<rparr>)
           else failed (or_else (ai_error r) ''Failed to generate frontend code''))"
  using assms
  by (simp add: FrontendAgent_execute_def Let_def split_beta caught_def split: sum.split)

lemma backend_result:
  assumes "lookup_output prev ''Requirement'' = Some req"
  shows "fst (BackendAgent_execute E name pid cfg prev w)
     = (if \<not> checkIfBackendNeeded cfg req
        then \<lparr>success = True,
               res_output = Some (BackendSkipped ''frontend-only'' ''No backend required''),
               error = None, files = None\<rparr>
        else
          let r = gemini E (length (requests w)) (BackendPrompt (template (prop_specification req)) cfg)
          in if ai_success r
             then (case backend_parseCodeIntoFiles E (ai_content r) cfg of
                     Inl msg \<Rightarrow> failed msg
                   | Inr fs \<Rightarrow>
                       \<lparr>success = True,
                        res_output = Some (BackendOutput (ai_content r) (length fs)
                                       (backend_extractArchitectureInfo E (ai_content r))
                                       (backend_extractEndpoints E (ai_content r))),
                        error = None, files = Some fs\<rparr>)
             else failed (or_else (ai_error r) ''Failed to generate backend code''))"
  using assms
  by (simp add: BackendAgent_execute_def Let_def split_beta caught_def split: sum.split)

text \<open>Without a project name, and without a \<open>package.json\<close> among the files of the reply,
  adding the essential files throws, and the stage reports the failure.\<close>

lemma frontend_unnamed_project:
  assumes "lookup_output prev ''Requirement'' = Some req" and "cfg_projectName cfg = None"
    and "ai_success (gemini E (length (requests w))
           (FrontendPrompt (template (prop_specification req)) cfg))"
    and "\<not> list_ex (\<lambda>p. includes_js p ''package.json'')
           (map path (frontend_codeBlockFiles E (ai_content (gemini E (length (requests w))
              (FrontendPrompt (template (prop_specification req)) cfg)))))"
  shows "fst (FrontendAgent_execute E name pid cfg prev w) = failed reading_toLowerCase"
  using assms
  by (simp add: frontend_result frontend_parseCodeIntoFiles_def addEssentialFiles_def Let_def)

lemma backend_unnamed_project:
  assumes "lookup_output prev ''Requirement'' = Some req" and "cfg_projectName cfg = None"
    and "checkIfBackendNeeded cfg req"
    and "ai_success (gemini E (length (requests w))
           (BackendPrompt (template (prop_specification req)) cfg))"
    and "\<not> list_ex (\<lambda>p. includes_js p ''package.json'')
           (map path (backend_codeBlockFiles E (ai_content (gemini E (length (requests w))
              (BackendPrompt (template (prop_specification req)) cfg)))))"
  shows "fst (BackendAgent_execute E name pid cfg prev w) = failed reading_toLowerCase"
  using assms
  by (simp add: backend_result backend_parseCodeIntoFiles_def addEssentialBackendFiles_def Let_def)

lemma validator_output:
  assumes "lookup_output prev ''Frontend'' = Some frontendOutput"
  shows "success (fst (ValidatorAgent_execute E name pid cfg prev w))
           \<Longrightarrow> res_output (fst (ValidatorAgent_execute E name pid cfg prev w)) \<noteq> None"
  using assms
  by (simp add: ValidatorAgent_execute_def Let_def split_beta failed_def split: if_splits)

lemma lookup_output_update [simp]:
  "lookup_output (AList.update k v al) k' = (if k' = k then v else lookup_output al k')"
  by (cases v) (simp_all add: lookup_output_def update_conv')

lemma lookup_output_Nil [simp]: "lookup_output [] k = None"
  by (simp add: lookup_output_def)

section \<open>A run in which every stage succeeds\<close>

lemma agents_simps [simp]:
  "agents E ''Requirement''
     = Some (\<lambda>pid cfg prev w. returned (RequirementAgent_execute E ''Requirement'' pid cfg prev w))"
  "agents E ''Frontend''
     = Some (\<lambda>pid cfg prev w. returned (FrontendAgent_execute E ''Frontend'' pid cfg prev w))"
  "agents E ''Backend''
     = Some (\<lambda>pid cfg prev w. returned (BackendAgent_execute E ''Backend'' pid cfg prev w))"
  "agents E ''Validator''
     = Some (\<lambda>pid cfg prev w. returned (ValidatorAgent_execute E ''Validator'' pid cfg prev w))"
  "agents E ''Deployment'' = Some (DeploymentAgent_execute E ''Deployment'')"
  by (simp_all add: agents_def)

lemma step_ok:
  assumes agent: "agents E name = Some agent"
    and good: "\<And>w'. \<exists>result. fst (agent pid cfg (agentOutputs st) w') = Inr result \<and> success result
                       \<and> P (res_output result)"
  shows "fst (run_agent E pid cfg name st w) = None
         \<and> completedAgents (fst (snd (run_agent E pid cfg name st w))) = completedAgents st @ [name]
         \<and> lifecycle (snd (snd (run_agent E pid cfg name st w)))
             = lifecycle w @ [AgentStarted pid name, AgentCompleted pid name]
         \<and> (\<exists>out. P out \<and> (\<forall>k. lookup_output (agentOutputs (fst (snd (run_agent E pid cfg name st w)))) k
                               = (if k = name then out else lookup_output (agentOutputs st) k)))"
proof -
  let ?w2 = "emit (AgentStarted pid name) (updateProjectState E pid (st\<lparr>currentAgent := Some name\<rparr>) w)"
  from good [of ?w2] obtain result where
    r: "fst (agent pid cfg (agentOutputs st) ?w2) = Inr result" "success result" "P (res_output result)"
    by blast
  show ?thesis
    using run_agent_outcome [OF agent, of pid cfg st w] r
    by (auto intro!: exI [of _ "res_output result"])
qed

lemma good_requirement:
  assumes "always_succeeds E"
  shows "\<exists>result. fst (returned (RequirementAgent_execute E name pid cfg prev w)) = Inr result
           \<and> success result \<and> res_output result \<noteq> None"
  using assms by (simp add: returned_def requirement_result always_succeeds_def)

lemma frontend_files:
  assumes "cfg_projectName cfg \<noteq> None"
  shows "\<exists>fs. frontend_parseCodeIntoFiles E s cfg = Inr fs"
  using assms by (auto simp: frontend_parseCodeIntoFiles_def addEssentialFiles_def Let_def)

lemma backend_files:
  assumes "cfg_projectName cfg \<noteq> None"
  shows "\<exists>fs. backend_parseCodeIntoFiles E s cfg = Inr fs"
  using assms by (auto simp: backend_parseCodeIntoFiles_def addEssentialBackendFiles_def Let_def)

lemma good_frontend:
  assumes "always_succeeds E" and "lookup_output prev ''Requirement'' \<noteq> None"
    and "cfg_projectName cfg \<noteq> None"
  shows "\<exists>result. fst (returned (FrontendAgent_execute E name pid cfg prev w)) = Inr result
           \<and> success result \<and> res_output result \<noteq> None"
proof -
  from assms(2) obtain req where "lookup_output prev ''Requirement'' = Some req" by blast
  moreover obtain fs where
    "frontend_parseCodeIntoFiles E
       (ai_content (gemini E (length (requests w))
          (FrontendPrompt (template (prop_specification req)) cfg))) cfg = Inr fs"
    using frontend_files [OF assms(3)] by blast
  ultimately show ?thesis
    using assms(1) by (simp add: returned_def frontend_result always_succeeds_def Let_def)
qed

lemma good_backend:
  assumes "always_succeeds E" and "lookup_output prev ''Requirement'' \<noteq> None"
    and "cfg_projectName cfg \<noteq> None"
  shows "\<exists>result. fst (returned (BackendAgent_execute E name pid cfg prev w)) = Inr result
           \<and> success result \<and> res_output result \<noteq> None"
proof -
  from assms(2) obtain req where "lookup_output prev ''Requirement'' = Some req" by blast
  moreover obtain fs where
    "backend_parseCodeIntoFiles E
       (ai_content (gemini E (length (requests w))
          (BackendPrompt (template (prop_specification req)) cfg))) cfg = Inr fs"
    using backend_files [OF assms(3)] by blast
  ultimately show ?thesis
    using assms(1) by (simp add: returned_def backend_result always_succeeds_def Let_def)
qed

lemma good_validator:
  assumes "always_succeeds E" and "lookup_output prev ''Frontend'' \<noteq> None"
  shows "\<exists>result. fst (returned (ValidatorAgent_execute E name pid cfg prev w)) = Inr result
           \<and> success result \<and> res_output result \<noteq> None"
proof -
  from assms(2) obtain f where f: "lookup_output prev ''Frontend'' = Some f" by blast
  have "success (fst (ValidatorAgent_execute E name pid cfg prev w))"
    using assms(1) by (simp add: validator_success [OF f] always_succeeds_def)
  then show ?thesis
    using validator_output [OF f] by (simp add: returned_def)
qed

lemma good_deployment:
  assumes "always_succeeds E"
  shows "\<exists>result. fst (DeploymentAgent_execute E name pid cfg prev w) = Inr result
           \<and> success result \<and> True"
proof -
  have "case snd (deployment E pid cfg prev w) of Inl msg \<Rightarrow> False | Inr r \<Rightarrow> success r"
    using assms by (simp add: always_succeeds_def)
  then show ?thesis
    by (cases "snd (deployment E pid cfg prev w)") (simp_all add: DeploymentAgent_execute_def split_beta)
qed

lemma full_run:
  assumes ok: "always_succeeds E" and named: "cfg_projectName cfg \<noteq> None"
  shows "fst (run_agents E pid cfg agentConfigs initialState w) = None
         \<and> completedAgents (fst (snd (run_agents E pid cfg agentConfigs initialState w)))
             = [''Requirement'', ''Frontend'', ''Backend'', ''Validator'', ''Deployment'']
         \<and> lifecycle (snd (snd (run_agents E pid cfg agentConfigs initialState w)))
             = lifecycle w
               @ [AgentStarted pid ''Requirement'', AgentCompleted pid ''Requirement'',
                  AgentStarted pid ''Frontend'', AgentCompleted pid ''Frontend'',
                  AgentStarted pid ''Backend'', AgentCompleted pid ''Backend'',
                  AgentStarted pid ''Validator'', AgentCompleted pid ''Validator'',
                  AgentStarted pid ''Deployment'', AgentCompleted pid ''Deployment'']"
proof -
  define c1 c2 c3 c4 c5 where
    "c1 = \<lparr>agent_name = ''Requirement'', agent_description = ''Parse user requirements'',
           dependencies = []\<rparr>"
    and "c2 = \<lparr>agent_name = ''Frontend'', agent_description = ''Generate frontend code'',
           dependencies = [''Requirement'']\<rparr>"
    and "c3 = \<lparr>agent_name = ''Backend'', agent_description = ''Generate backend code'',
           dependencies = [''Requirement'']\<rparr>"
    and "c4 = \<lparr>agent_name = ''Validator'', agent_description = ''Validate generated code'',
           dependencies = [''Frontend'', ''Backend'']\<rparr>"
    and "c5 = \<lparr>agent_name = ''Deployment'', agent_description = ''Package for deployment'',
           dependencies = [''Validator'']\<rparr>"
  have cfgs: "agentConfigs = [c1, c2, c3, c4, c5]"
    by (simp add: agentConfigs_def c1_def c2_def c3_def c4_def c5_def)
  have names [simp]: "agent_name c1 = ''Requirement''" "agent_name c2 = ''Frontend''"
    "agent_name c3 = ''Backend''" "agent_name c4 = ''Validator''" "agent_name c5 = ''Deployment''"
    "dependencies c1 = []" "dependencies c2 = [''Requirement'']" "dependencies c3 = [''Requirement'']"
    "dependencies c4 = [''Frontend'', ''Backend'']" "dependencies c5 = [''Validator'']"
    by (simp_all add: c1_def c2_def c3_def c4_def c5_def)
  define st0 where "st0 = initialState"
  have s0: "completedAgents st0 = []" by (simp add: st0_def initialState_def)
  \<comment> \<open>Requirement\<close>
  define st1 w1 where "st1 = fst (snd (run_agent E pid cfg ''Requirement'' st0 w))"
    and "w1 = snd (snd (run_agent E pid cfg ''Requirement'' st0 w))"
  from step_ok [OF agents_simps(1), where pid = pid and cfg = cfg and st = st0 and P = "\<lambda>out. out \<noteq> None" and w = w,
         OF good_requirement [OF ok]]
  have r1: "fst (run_agent E pid cfg ''Requirement'' st0 w) = None"
    and s1: "completedAgents st1 = [''Requirement'']"
    and l1: "lifecycle w1 = lifecycle w @ [AgentStarted pid ''Requirement'', AgentCompleted pid ''Requirement'']"
    and o1: "lookup_output (agentOutputs st1) ''Requirement'' \<noteq> None"
    by (auto simp: st1_def w1_def s0)
  have e1: "run_agents E pid cfg [c1, c2, c3, c4, c5] st0 w = run_agents E pid cfg [c2, c3, c4, c5] st1 w1"
    using run_agents_Cons_next [of c1 st0 E pid cfg w] r1
    by (simp add: s0 dependenciesMet_def st1_def w1_def)
  \<comment> \<open>Frontend\<close>
  define st2 w2 where "st2 = fst (snd (run_agent E pid cfg ''Frontend'' st1 w1))"
    and "w2 = snd (snd (run_agent E pid cfg ''Frontend'' st1 w1))"
  from step_ok [OF agents_simps(2), where pid = pid and cfg = cfg and st = st1 and P = "\<lambda>out. out \<noteq> None" and w = w1,
         OF good_frontend [OF ok o1 named]]
  have r2: "fst (run_agent E pid cfg ''Frontend'' st1 w1) = None"
    and s2: "completedAgents st2 = [''Requirement'', ''Frontend'']"
    and l2: "lifecycle w2 = lifecycle w1 @ [AgentStarted pid ''Frontend'', AgentCompleted pid ''Frontend'']"
    and o2: "lookup_output (agentOutputs st2) ''Requirement'' \<noteq> None"
            "lookup_output (agentOutputs st2) ''Frontend'' \<noteq> None"
    using o1 by (auto simp: st2_def w2_def s1)
  have e2: "run_agents E pid cfg [c2, c3, c4, c5] st1 w1 = run_agents E pid cfg [c3, c4, c5] st2 w2"
    using run_agents_Cons_next [of c2 st1 E pid cfg w1] r2
    by (simp add: s1 dependenciesMet_def st2_def w2_def)
  \<comment> \<open>Backend\<close>
  define st3 w3 where "st3 = fst (snd (run_agent E pid cfg ''Backend'' st2 w2))"
    and "w3 = snd (snd (run_agent E pid cfg ''Backend'' st2 w2))"
  from step_ok [OF agents_simps(3), where pid = pid and cfg = cfg and st = st2 and P = "\<lambda>out. out \<noteq> None" and w = w2,
         OF good_backend [OF ok o2(1) named]]
  have r3: "fst (run_agent E pid cfg ''Backend'' st2 w2) = None"
    and s3: "completedAgents st3 = [''Requirement'', ''Frontend'', ''Backend'']"
    and l3: "lifecycle w3 = lifecycle w2 @ [AgentStarted pid ''Backend'', AgentCompleted pid ''Backend'']"
    and o3: "lookup_output (agentOutputs st3) ''Frontend'' \<noteq> None"
    using o2 by (auto simp: st3_def w3_def s2)
  have e3: "run_agents E pid cfg [c3, c4, c5] st2 w2 = run_agents E pid cfg [c4, c5] st3 w3"
    using run_agents_Cons_next [of c3 st2 E pid cfg w2] r3
    by (simp add: s2 dependenciesMet_def st3_def w3_def)
  \<comment> \<open>Validator\<close>
  define st4 w4 where "st4 = fst (snd (run_agent E pid cfg ''Validator'' st3 w3))"
    and "w4 = snd (snd (run_agent E pid cfg ''Validator'' st3 w3))"
  from step_ok [OF agents_simps(4), where pid = pid and cfg = cfg and st = st3 and P = "\<lambda>out. out \<noteq> None" and w = w3,
         OF good_validator [OF ok o3]]
  have r4: "fst (run_agent E pid cfg ''Validator'' st3 w3) = None"
    and s4: "completedAgents st4 = [''Requirement'', ''Frontend'', ''Backend'', ''Validator'']"
    and l4: "lifecycle w4 = lifecycle w3 @ [AgentStarted pid ''Validator'', AgentCompleted pid ''Validator'']"
    by (auto simp: st4_def w4_def s3)
  have e4: "run_agents E pid cfg [c4, c5] st3 w3 = run_agents E pid cfg [c5] st4 w4"
    using run_agents_Cons_next [of c4 st3 E pid cfg w3] r4
    by (simp add: s3 dependenciesMet_def st4_def w4_def)
  \<comment> \<open>Deployment\<close>
  define st5 w5 where "st5 = fst (snd (run_agent E pid cfg ''Deployment'' st4 w4))"
    and "w5 = snd (snd (run_agent E pid cfg ''Deployment'' st4 w4))"
  from step_ok [OF agents_simps(5), where pid = pid and cfg = cfg and st = st4 and P = "\<lambda>out. True" and w = w4,
         OF good_deployment [OF ok]]
  have r5: "fst (run_agent E pid cfg ''Deployment'' st4 w4) = None"
    and s5: "completedAgents st5 = [''Requirement'', ''Frontend'', ''Backend'', ''Validator'', ''Deployment'']"
    and l5: "lifecycle w5 = lifecycle w4 @ [AgentStarted pid ''Deployment'', AgentCompleted pid ''Deployment'']"
    by (auto simp: st5_def w5_def s4)
  have e5: "run_agents E pid cfg [c5] st4 w4 = (None, st5, w5)"
    using run_agents_Cons_next [of c5 st4 E pid cfg w4 "[]"] r5
    by (simp add: s4 dependenciesMet_def st5_def w5_def)
  have "run_agents E pid cfg agentConfigs initialState w = (None, st5, w5)"
    by (simp only: cfgs st0_def [symmetric] e1 e2 e3 e4 e5)
  then show ?thesis
    by (simp add: s5 l5 l4 l3 l2 l1)
qed

section \<open>Stored files\<close>

text \<open>
  Claim C10. In every reachable world each stored file record has \<open>size\<close> equal to the
  length of its \<open>content\<close>, and this still holds of every record after the content of a
  file has been replaced.
\<close>

theorem C10_file_size:
  assumes "reachable w"
  shows "((fid, f) \<in> set (projectFiles w) \<longrightarrow> file_size f = length (content f))
         \<and> ((fid, f) \<in> set (projectFiles (updateProjectFile fid' c w)) \<longrightarrow>
              file_size f = length (content f))"
proof -
  have "files_ok w" and "files_ok (updateProjectFile fid' c w)"
    using reachable_ok [OF assms] reachable_ok [OF reach_replace [OF assms]]
    by (simp_all add: world_ok_def)
  then show ?thesis
    by (auto simp: files_ok_def list_all_iff)
qed

lemma projectFiles_updateProjectFile:
  "projectFiles (updateProjectFile fid c w)
     = (case map_of (projectFiles w) fid of
          None \<Rightarrow> projectFiles w
        | Some file \<Rightarrow>
            AList.update fid (file\<lparr>content := c, file_size := length c\<rparr>) (projectFiles w))"
  by (simp add: updateProjectFile_def split: option.split)

lemma sample_saved:
  "projectFiles (save_files sample_good_env ''0'' [sample_file] MemStorage_new)
     = [(''0'', \<lparr>path = ''/src/App.tsx'', content = ''export default App'',
                language = Some ''typescript'', file_projectId = ''0'', file_size = 18,
                file_id = ''0'', file_createdAt = 1000\<rparr>)]"
  by (simp add: addProjectFile_def Let_def MemStorage_new_def sample_good_env_def sample_env_def
        sample_file_def digit_char_def)

theorem C10_file_size_witness:
  "reachable (save_files sample_good_env ''0'' [sample_file] MemStorage_new)
   \<and> (''0'', \<lparr>path = ''/src/App.tsx'', content = ''export default App'',
              language = Some ''typescript'', file_projectId = ''0'', file_size = 18,
              file_id = ''0'', file_createdAt = 1000\<rparr>)
       \<in> set (projectFiles (save_files sample_good_env ''0'' [sample_file] MemStorage_new))
   \<and> (''0'', \<lparr>path = ''/src/App.tsx'', content = ''fixed'',
              language = Some ''typescript'', file_projectId = ''0'', file_size = 5,
              file_id = ''0'', file_createdAt = 1000\<rparr>)
       \<in> set (projectFiles (updateProjectFile ''0'' ''fixed''
                  (save_files sample_good_env ''0'' [sample_file] MemStorage_new)))
   \<and> file_size \<lparr>path = ''/src/App.tsx'', content = ''fixed'',
              language = Some ''typescript'', file_projectId = ''0'', file_size = 5,
              file_id = ''0'', file_createdAt = 1000\<rparr>
       = length (content \<lparr>path = ''/src/App.tsx'', content = ''fixed'',
              language = Some ''typescript'', file_projectId = ''0'', file_size = 5,
              file_id = ''0'', file_createdAt = 1000\<rparr>)"
proof -
  let ?w = "save_files sample_good_env ''0'' [sample_file] MemStorage_new"
  let ?f = "\<lparr>path = ''/src/App.tsx'', content = ''fixed'',
              language = Some ''typescript'', file_projectId = ''0'', file_size = 5,
              file_id = ''0'', file_createdAt = 1000\<rparr>"
  have r: "reachable ?w" by (intro reach_save reach_new)
  have m: "(''0'', ?f) \<in> set (projectFiles (updateProjectFile ''0'' ''fixed'' ?w))"
    by (simp only: projectFiles_updateProjectFile sample_saved) simp
  have s: "(''0'', \<lparr>path = ''/src/App.tsx'', content = ''export default App'',
              language = Some ''typescript'', file_projectId = ''0'', file_size = 18,
              file_id = ''0'', file_createdAt = 1000\<rparr>) \<in> set (projectFiles ?w)"
    by (simp only: sample_saved) simp
  show ?thesis
    using C10_file_size [OF r, of "''0''" ?f "''0''" "''fixed''"] r m s
    by blast
qed

section \<open>Resuming a completed run\<close>

lemma run_agents_skip_all:
  "list_all (\<lambda>c. agent_name c \<in> set (completedAgents st)) cfgs \<Longrightarrow>
   run_agents E pid cfg cfgs st w = (None, st, w)"
  by (induction cfgs) simp_all

lemma more_fields [simp]:
  "agentLogs (updateProjectStatus E pid s w) = agentLogs w"
  "agentLogs (updateProjectState E pid st w) = agentLogs w"
  by (simp_all add: updateProjectStatus_def updateProjectState_def split: option.splits)

lemma completed_project:
  assumes "reachable w" and "status_of pid w = Some ''completed''"
  obtains p st where "getProject pid w = Some p" "state p = Some st" "all_completed st"
proof -
  from assms(2) obtain p where p: "getProject pid w = Some p" "status p = ''completed''"
    by (auto simp: status_of_def)
  then have "project_ok p"
    using reachable_ok [OF assms(1)] by (simp add: world_ok_def)
  then show ?thesis
    using p that by (auto simp: project_ok_def split: option.splits)
qed

text \<open>
  Claim C7. Resuming a run whose status is \<open>completed\<close> executes no stage: the call
  returns without an error, the only events emitted are the resumed event and one
  completed event, no request is sent and no log line or file is stored, the stored
  execution state is the one before the call and the status is \<open>completed\<close> again.
\<close>

theorem C7_resume_completed:
  assumes "reachable w" and "status_of pid w = Some ''completed''"
  shows "fst (resumeProject E pid w) = None
         \<and> emitted (snd (resumeProject E pid w))
             = emitted w @ [ProjectResumed pid, ProjectCompleted pid]
         \<and> state_of pid (snd (resumeProject E pid w)) = state_of pid w
         \<and> status_of pid (snd (resumeProject E pid w)) = Some ''completed''
         \<and> requests (snd (resumeProject E pid w)) = requests w
         \<and> agentLogs (snd (resumeProject E pid w)) = agentLogs w
         \<and> projectFiles (snd (resumeProject E pid w)) = projectFiles w"
proof -
  from completed_project [OF assms] obtain p st where
    p: "getProject pid w = Some p" "state p = Some st" "all_completed st"
    by blast
  have skip: "run_agents E pid cfg agentConfigs st w' = (None, st, w')" for cfg w'
    using p(3) by (simp add: run_agents_skip_all all_completed_def)
  have "resumeProject E pid w
          = (None, emit (ProjectCompleted pid) (updateProjectStatus E pid ''completed''
                     (emit (ProjectResumed pid) (updateProjectStatus E pid ''running'' w))))"
    using p by (simp add: resumeProject_def Let_def stored_def executeAgentPipeline_def skip)
  then show ?thesis
    using p(1,2) by (simp add: status_of_def state_of_def)
qed

lemma sample_created_project:
  "getProject ''0'' sample_created
     = Some \<lparr>project_id = ''0'', project_name = ''landing'',
             project_description = ''A landing page'', config = sample_config,
             status = ''pending'', state = None, createdAt = 1000, updatedAt = 1000\<rparr>"
  by (simp add: sample_created_def getProject_def createProject_def Let_def MemStorage_new_def
        sample_good_env_def sample_env_def sample_project_def digit_char_def)

lemma sample_good_env_succeeds: "always_succeeds sample_good_env"
  by (simp add: always_succeeds_def sample_good_env_def sample_env_def ok_reply_def)

lemma startProject_eq:
  assumes "getProject pid w = Some p"
  shows "startProject E pid w
           = (case fst (run_agents E pid (config p) agentConfigs initialState
                          (emit (ProjectStarted pid)
                             (updateProjectState E pid initialState
                                (updateProjectStatus E pid ''running'' w)))) of
                None \<Rightarrow>
                  emit (ProjectCompleted pid)
                    (updateProjectStatus E pid ''completed''
                       (snd (snd (run_agents E pid (config p) agentConfigs initialState
                          (emit (ProjectStarted pid)
                             (updateProjectState E pid initialState
                                (updateProjectStatus E pid ''running'' w)))))))
              | Some thrown \<Rightarrow>
                  emit (ProjectError pid thrown)
                    (updateProjectStatus E pid ''error''
                       (snd (snd (run_agents E pid (config p) agentConfigs initialState
                          (emit (ProjectStarted pid)
                             (updateProjectState E pid initialState
                                (updateProjectStatus E pid ''running'' w))))))))"
proof -
  let ?w3 = "emit (ProjectStarted pid)
               (updateProjectState E pid initialState (updateProjectStatus E pid ''running'' w))"
  let ?p3 = "p\<lparr>status := ''running'', updatedAt := clock E (ticks w), state := Some initialState,
               updatedAt := clock E (ticks (updateProjectStatus E pid ''running'' w))\<rparr>"
  have st: "stored pid p ?w3 = ?p3"
    using assms by (simp add: stored_def)
  have pipe: "executeAgentPipeline E pid ?p3 ?w3
                = (case fst (run_agents E pid (config p) agentConfigs initialState ?w3) of
                     None \<Rightarrow> (None, emit (ProjectCompleted pid)
                                (updateProjectStatus E pid ''completed''
                                   (snd (snd (run_agents E pid (config p) agentConfigs initialState ?w3)))))
                   | Some thrown \<Rightarrow>
                       (Some thrown, snd (snd (run_agents E pid (config p) agentConfigs initialState ?w3))))"
    unfolding executeAgentPipeline_def
    by (cases "run_agents E pid (config p) agentConfigs initialState ?w3")
       (auto split: option.splits)
  have "startProject E pid w
          = (case executeAgentPipeline E pid (stored pid p ?w3) ?w3 of
               (None, w4) \<Rightarrow> w4
             | (Some thrown, w4) \<Rightarrow>
                 emit (ProjectError pid thrown) (updateProjectStatus E pid ''error'' w4))"
    unfolding startProject_def Let_def using assms by simp
  then show ?thesis
    unfolding st pipe by (simp split: option.split)
qed

lemma start_completed:
  assumes "always_succeeds E" and p: "getProject pid w = Some p"
    and "cfg_projectName (config p) \<noteq> None"
  shows "status_of pid (startProject E pid w) = Some ''completed''"
    and "map_option completedAgents (state_of pid (startProject E pid w))
           = Some [''Requirement'', ''Frontend'', ''Backend'', ''Validator'', ''Deployment'']"
    and "lifecycle (startProject E pid w)
           = lifecycle w
             @ [ProjectStarted pid,
                AgentStarted pid ''Requirement'', AgentCompleted pid ''Requirement'',
                AgentStarted pid ''Frontend'', AgentCompleted pid ''Frontend'',
                AgentStarted pid ''Backend'', AgentCompleted pid ''Backend'',
                AgentStarted pid ''Validator'', AgentCompleted pid ''Validator'',
                AgentStarted pid ''Deployment'', AgentCompleted pid ''Deployment'',
                ProjectCompleted pid]"
proof -
  define w3 where "w3 = emit (ProjectStarted pid)
               (updateProjectState E pid initialState (updateProjectStatus E pid ''running'' w))"
  define run where "run = run_agents E pid (config p) agentConfigs initialState w3"
  have p3: "getProject pid w3 \<noteq> None" and l3: "lifecycle w3 = lifecycle w @ [ProjectStarted pid]"
    using p by (simp_all add: w3_def)
  note full = full_run [OF assms(1,3), of pid w3, folded run_def]
  have sy0: "synced pid initialState w3"
    using p by (simp add: synced_def w3_def)
  have sync: "synced pid (fst (snd run)) (snd (snd run))"
    by (rule run_agents_synced [OF _ sy0, of E "config p" agentConfigs "fst run"]) (simp add: run_def)
  then obtain p' where p': "getProject pid (snd (snd run)) = Some p'"
    "fst (snd run) = (case state p' of None \<Rightarrow> initialState | Some s \<Rightarrow> s)"
    by (auto simp: synced_def split: option.splits)
  have st: "state p' = Some (fst (snd run))"
    using p'(2) full by (cases "state p'") (auto simp: initialState_def)
  have eq: "startProject E pid w
              = emit (ProjectCompleted pid) (updateProjectStatus E pid ''completed'' (snd (snd run)))"
    using full unfolding startProject_eq [OF p] w3_def [symmetric] run_def [symmetric]
    by (simp only: conjunct1 option.case)
  show "status_of pid (startProject E pid w) = Some ''completed''"
    unfolding eq by (simp add: status_of_def p')
  show "map_option completedAgents (state_of pid (startProject E pid w))
           = Some [''Requirement'', ''Frontend'', ''Backend'', ''Validator'', ''Deployment'']"
  proof -
    have "state_of pid (startProject E pid w) = state_of pid (snd (snd run))"
      unfolding eq by simp
    also have "\<dots> = Some (fst (snd run))"
      unfolding state_of_def p' by (simp add: st)
    finally show ?thesis
      using full by (simp only: option.map)
  qed
  show "lifecycle (startProject E pid w)
           = lifecycle w
             @ [ProjectStarted pid,
                AgentStarted pid ''Requirement'', AgentCompleted pid ''Requirement'',
                AgentStarted pid ''Frontend'', AgentCompleted pid ''Frontend'',
                AgentStarted pid ''Backend'', AgentCompleted pid ''Backend'',
                AgentStarted pid ''Validator'', AgentCompleted pid ''Validator'',
                AgentStarted pid ''Deployment'', AgentCompleted pid ''Deployment'',
                ProjectCompleted pid]"
  proof -
    have "lifecycle (startProject E pid w) = lifecycle (snd (snd run)) @ [ProjectCompleted pid]"
      unfolding eq by simp
    then show ?thesis
      using full by (simp only: l3) simp
  qed
qed

lemma sample_completed_reachable: "reachable sample_completed"
  unfolding sample_completed_def sample_created_def
  by (intro reach_start reach_create reach_new)

lemma sample_completed_status: "status_of ''0'' sample_completed = Some ''completed''"
  unfolding sample_completed_def
  by (rule start_completed(1) [OF sample_good_env_succeeds sample_created_project])
     (simp add: sample_config_def)

text \<open>C7 on the sample project after a run in which every stage succeeded.\<close>

theorem C7_resume_completed_witness:
  "reachable sample_completed
   \<and> status_of ''0'' sample_completed = Some ''completed''
   \<and> fst (resumeProject sample_bad_env ''0'' sample_completed) = None
   \<and> emitted (snd (resumeProject sample_bad_env ''0'' sample_completed))
       = emitted sample_completed @ [ProjectResumed ''0'', ProjectCompleted ''0'']
   \<and> state_of ''0'' (snd (resumeProject sample_bad_env ''0'' sample_completed))
       = state_of ''0'' sample_completed"
  using C7_resume_completed [OF sample_completed_reachable sample_completed_status, of sample_bad_env]
    sample_completed_reachable sample_completed_status
  by simp

section \<open>Which stage runs next\<close>

lemma run_agents_head:
  "case find (\<lambda>c. agent_name c \<notin> set (completedAgents st)) cfgs of
     None \<Rightarrow> run_agents E pid cfg cfgs st w = (None, st, w)
   | Some c \<Rightarrow>
       if dependenciesMet st c
       then prefix (emitted w @ [AgentStarted pid (agent_name c)])
              (emitted (snd (snd (run_agents E pid cfg cfgs st w))))
       else run_agents E pid cfg cfgs st w
              = (Some (''Agent '' @ agent_name c @ '' dependencies not met: ''
                         @ join '', '' (missingDeps st c)), st, w)"
proof (induction cfgs)
  case Nil
  then show ?case by simp
next
  case (Cons c rest)
  show ?case
  proof (cases "agent_name c \<in> set (completedAgents st)")
    case True
    then show ?thesis using Cons by (simp split: option.splits)
  next
    case new: False
    show ?thesis
    proof (cases "dependenciesMet st c")
      case False
      then show ?thesis using new by simp
    next
      case met: True
      obtain r1 st1 w1 where step: "run_agent E pid cfg (agent_name c) st w = (r1, st1, w1)"
        by (cases "run_agent E pid cfg (agent_name c) st w") auto
      note first = run_agent_emitted [OF step]
      show ?thesis
      proof (cases r1)
        case None
        obtain r st' w' where rest: "run_agents E pid cfg rest st1 w1 = (r, st', w')"
          by (cases "run_agents E pid cfg rest st1 w1") auto
        have "prefix (emitted w @ [AgentStarted pid (agent_name c)]) (emitted w')"
          using first run_agents_emitted [OF rest] by (rule prefix_order.trans)
        then show ?thesis using new met step None rest by simp
      next
        case (Some msg)
        then show ?thesis using new met step first by simp
      qed
    qed
  qed
qed

lemma first_uncompleted:
  "find (eligible cs) agentConfigs = find (\<lambda>c. agent_name c \<notin> set cs) agentConfigs"
  by (simp add: agentConfigs_def eligible_def)

lemma first_uncompleted_met:
  "find (\<lambda>c. agent_name c \<notin> set (completedAgents st)) agentConfigs = Some c \<Longrightarrow> dependenciesMet st c"
  by (auto simp: agentConfigs_def dependenciesMet_def split: if_splits)

lemma none_eligible:
  assumes "find (eligible (completedAgents st)) cfgs = None"
    and "find (\<lambda>c. agent_name c \<notin> set (completedAgents st)) cfgs = Some c"
  shows "\<not> dependenciesMet st c" and "c \<in> set cfgs"
proof -
  from assms(2) have c: "c \<in> set cfgs" "agent_name c \<notin> set (completedAgents st)"
    by (auto simp: find_Some_iff)
  then have "\<not> eligible (completedAgents st) c"
    using assms(1) by (auto simp: find_None_iff)
  then show "\<not> dependenciesMet st c"
    using c(2) by (auto simp: eligible_def dependenciesMet_def list_all_iff)
  show "c \<in> set cfgs" by (rule c(1))
qed

text \<open>
  Claim C5. From any execution state the first thing the loop does is start the first
  declaration, in the order of \<open>agentConfigs\<close>, that is not completed and whose
  dependencies are all completed, which is a function of \<open>completedAgents\<close> alone; when
  there is none, every declaration is completed and the loop does nothing. For any list of
  declarations: when some are not completed and none of these has its dependencies
  completed, the loop throws the error that names the unmet dependencies of one of them,
  and does nothing else.
\<close>

theorem C5_next_stage:
  "(case find (eligible (completedAgents st)) agentConfigs of
      Some c \<Rightarrow>
        prefix (emitted w @ [AgentStarted pid (agent_name c)])
          (emitted (snd (snd (run_agents E pid cfg agentConfigs st w))))
    | None \<Rightarrow>
        run_agents E pid cfg agentConfigs st w = (None, st, w)
        \<and> list_all (\<lambda>c. agent_name c \<in> set (completedAgents st)) agentConfigs)
   \<and> (list_ex (\<lambda>c. agent_name c \<notin> set (completedAgents st)) cfgs
        \<and> find (eligible (completedAgents st)) cfgs = None \<longrightarrow>
      list_ex (\<lambda>c. run_agents E pid cfg cfgs st w
                       = (Some (''Agent '' @ agent_name c @ '' dependencies not met: ''
                                  @ join '', '' (missingDeps st c)), st, w)) cfgs)"
proof (intro conjI impI)
  show "case find (eligible (completedAgents st)) agentConfigs of
      Some c \<Rightarrow>
        prefix (emitted w @ [AgentStarted pid (agent_name c)])
          (emitted (snd (snd (run_agents E pid cfg agentConfigs st w))))
    | None \<Rightarrow>
        run_agents E pid cfg agentConfigs st w = (None, st, w)
        \<and> list_all (\<lambda>c. agent_name c \<in> set (completedAgents st)) agentConfigs"
  proof (cases "find (\<lambda>c. agent_name c \<notin> set (completedAgents st)) agentConfigs")
    case None
    then have "list_all (\<lambda>c. agent_name c \<in> set (completedAgents st)) agentConfigs"
      by (auto simp: find_None_iff list_all_iff)
    then show ?thesis
      using run_agents_head [where st = st and cfgs = agentConfigs and E = E and pid = pid and cfg = cfg and w = w]
      by (simp add: first_uncompleted None)
  next
    case (Some c)
    then show ?thesis
      using run_agents_head [where st = st and cfgs = agentConfigs and E = E and pid = pid and cfg = cfg and w = w] first_uncompleted_met [OF Some]
      by (simp add: first_uncompleted)
  qed
next
  assume a: "list_ex (\<lambda>c. agent_name c \<notin> set (completedAgents st)) cfgs
        \<and> find (eligible (completedAgents st)) cfgs = None"
  then obtain c where c: "find (\<lambda>c. agent_name c \<notin> set (completedAgents st)) cfgs = Some c"
    by (cases "find (\<lambda>c. agent_name c \<notin> set (completedAgents st)) cfgs")
       (auto simp: find_None_iff list_ex_iff)
  from none_eligible [OF _ c] a have "\<not> dependenciesMet st c" "c \<in> set cfgs" by simp_all
  then show "list_ex (\<lambda>c. run_agents E pid cfg cfgs st w
                       = (Some (''Agent '' @ agent_name c @ '' dependencies not met: ''
                                  @ join '', '' (missingDeps st c)), st, w)) cfgs"
    using run_agents_head [where st = st and cfgs = cfgs and E = E and pid = pid and cfg = cfg and w = w] c by (auto simp: list_ex_iff)
qed

text \<open>
  C5 on the sample project: a fresh run starts with Requirement; and a list that declares
  only the Validator cannot start from the empty state.
\<close>

theorem C5_next_stage_witness:
  "find (eligible (completedAgents initialState)) agentConfigs
     = Some \<lparr>agent_name = ''Requirement'', agent_description = ''Parse user requirements'',
             dependencies = []\<rparr>
   \<and> prefix (emitted sample_created @ [AgentStarted ''0'' ''Requirement''])
        (emitted (snd (snd (run_agents sample_good_env ''0'' sample_config agentConfigs initialState
                              sample_created))))
   \<and> list_ex (\<lambda>c. agent_name c \<notin> set (completedAgents initialState))
        [\<lparr>agent_name = ''Validator'', agent_description = ''Validate generated code'',
          dependencies = [''Frontend'', ''Backend'']\<rparr>]
   \<and> find (eligible (completedAgents initialState))
        [\<lparr>agent_name = ''Validator'', agent_description = ''Validate generated code'',
          dependencies = [''Frontend'', ''Backend'']\<rparr>] = None
   \<and> run_agents sample_good_env ''0'' sample_config
        [\<lparr>agent_name = ''Validator'', agent_description = ''Validate generated code'',
          dependencies = [''Frontend'', ''Backend'']\<rparr>] initialState sample_created
       = (Some ''Agent Validator dependencies not met: Frontend, Backend'', initialState,
          sample_created)"
proof -
  have f: "find (eligible (completedAgents initialState)) agentConfigs
     = Some \<lparr>agent_name = ''Requirement'', agent_description = ''Parse user requirements'',
             dependencies = []\<rparr>"
    by (simp add: agentConfigs_def eligible_def initialState_def)
  have n: "list_ex (\<lambda>c. agent_name c \<notin> set (completedAgents initialState))
        [\<lparr>agent_name = ''Validator'', agent_description = ''Validate generated code'',
          dependencies = [''Frontend'', ''Backend'']\<rparr>]
      \<and> find (eligible (completedAgents initialState))
        [\<lparr>agent_name = ''Validator'', agent_description = ''Validate generated code'',
          dependencies = [''Frontend'', ''Backend'']\<rparr>] = None"
    by (simp add: eligible_def initialState_def)
  have m: "''Agent '' @ ''Validator'' @ '' dependencies not met: ''
             @ join '', '' (missingDeps initialState
                 \<lparr>agent_name = ''Validator'', agent_description = ''Validate generated code'',
                  dependencies = [''Frontend'', ''Backend'']\<rparr>)
           = ''Agent Validator dependencies not met: Frontend, Backend''"
    by (simp add: missingDeps_def initialState_def)
  show ?thesis
    using C5_next_stage [where st = initialState and w = sample_created and pid = "''0''"
        and E = sample_good_env and cfg = sample_config
        and cfgs = "[\<lparr>agent_name = ''Validator'', agent_description = ''Validate generated code'',
                      dependencies = [''Frontend'', ''Backend'']\<rparr>]"]
      n m
    by (simp add: f del: run_agents.simps)
qed

section \<open>The execution state\<close>

lemma run_agent_completed_iff:
  assumes "agents E name = Some agent"
  shows "completedAgents (fst (snd (run_agent E pid cfg name st w)))
           = (case fst (agent pid cfg (agentOutputs st)
                          (emit (AgentStarted pid name)
                             (updateProjectState E pid (st\<lparr>currentAgent := Some name\<rparr>) w))) of
                Inl msg \<Rightarrow> completedAgents st
              | Inr result \<Rightarrow>
                  if success result then completedAgents st @ [name] else completedAgents st)"
  unfolding run_agent_outcome(2) [OF assms] by (simp split: sum.split)

text \<open>
  Claim C6. In the execution state of any run of a reachable world, every completed stage
  of the configuration has all its declared dependencies completed, and the keys of
  \<open>agentOutputs\<close> are exactly the completed stages. A pass of the loop body adds the stage
  to \<open>completedAgents\<close> when its \<open>execute\<close> returned a result with \<open>success\<close>, and leaves
  \<open>completedAgents\<close> as it was when \<open>execute\<close> returned a failure or threw.
\<close>

theorem C6_execution_state:
  assumes "reachable w" and "state_of pid w = Some st"
  shows "list_all (\<lambda>c. agent_name c \<in> set (completedAgents st) \<longrightarrow>
                        set (dependencies c) \<subseteq> set (completedAgents st)) agentConfigs
         \<and> fst ` set (agentOutputs st) = set (completedAgents st)
         \<and> (agents E name = Some agent \<longrightarrow>
              completedAgents (fst (snd (run_agent E pid' cfg name st0 w0)))
                = (case fst (agent pid' cfg (agentOutputs st0)
                               (emit (AgentStarted pid' name)
                                  (updateProjectState E pid' (st0\<lparr>currentAgent := Some name\<rparr>) w0))) of
                     Inl msg \<Rightarrow> completedAgents st0
                   | Inr result \<Rightarrow>
                       if success result then completedAgents st0 @ [name]
                       else completedAgents st0))"
proof -
  from assms(2) obtain p where p: "getProject pid w = Some p" "state p = Some st"
    by (auto simp: state_of_def split: option.splits bind_splits)
  then have "project_ok p"
    using reachable_ok [OF assms(1)] by (simp add: world_ok_def)
  then have "state_ok st"
    using p(2) by (simp add: project_ok_def)
  then show ?thesis
    by (auto simp: state_ok_def closed_under_deps_def list_all_iff run_agent_completed_iff)
qed

text \<open>C6 on the sample project after a run in which every stage succeeded.\<close>

theorem C6_execution_state_witness:
  "reachable sample_completed
   \<and> state_of ''0'' sample_completed = Some (the (state_of ''0'' sample_completed))
   \<and> completedAgents (the (state_of ''0'' sample_completed))
       = [''Requirement'', ''Frontend'', ''Backend'', ''Validator'', ''Deployment'']
   \<and> fst ` set (agentOutputs (the (state_of ''0'' sample_completed)))
       = {''Requirement'', ''Frontend'', ''Backend'', ''Validator'', ''Deployment''}
   \<and> completedAgents (fst (snd (run_agent sample_good_env ''0'' sample_config ''Requirement''
                                    initialState sample_created)))
       = [''Requirement'']"
proof -
  have c: "map_option completedAgents (state_of ''0'' sample_completed)
             = Some [''Requirement'', ''Frontend'', ''Backend'', ''Validator'', ''Deployment'']"
    unfolding sample_completed_def
    by (rule start_completed(2) [OF sample_good_env_succeeds sample_created_project])
       (simp add: sample_config_def)
  then have h: "state_of ''0'' sample_completed = Some (the (state_of ''0'' sample_completed))"
    and c': "completedAgents (the (state_of ''0'' sample_completed))
               = [''Requirement'', ''Frontend'', ''Backend'', ''Validator'', ''Deployment'']"
    by auto
  have ok: "ai_success (gemini sample_good_env n req)" for n req
    using sample_good_env_succeeds by (simp add: always_succeeds_def)
  have step: "(case fst (returned (RequirementAgent_execute sample_good_env ''Requirement'' ''0''
                 sample_config (agentOutputs initialState) w')) of
                Inl msg \<Rightarrow> completedAgents initialState
              | Inr result \<Rightarrow>
                  if success result then completedAgents initialState @ [''Requirement'']
                  else completedAgents initialState) = [''Requirement'']" for w'
    by (simp add: returned_def requirement_result ok initialState_def)
  show ?thesis
    using C6_execution_state [OF sample_completed_reachable h, where E = sample_good_env
        and name = "''Requirement''" and pid' = "''0''" and cfg = sample_config
        and ?st0.0 = initialState and ?w0.0 = sample_created
        and agent = "\<lambda>pid cfg prev w. returned (RequirementAgent_execute sample_good_env
                        ''Requirement'' pid cfg prev w)"]
      sample_completed_reachable h
    by (simp add: c' step)
qed

section \<open>A run in which a stage fails\<close>

lemma step_failed:
  assumes agent: "agents E name = Some agent"
    and bad: "\<And>w'. fst (agent pid cfg (agentOutputs st) w') = Inr result" "\<not> success result"
  shows "fst (run_agent E pid cfg name st w)
           = Some (''Agent '' @ name @ '' failed: '' @ template (error result))
         \<and> completedAgents (fst (snd (run_agent E pid cfg name st w))) = completedAgents st
         \<and> map (\<lambda>e. (err_agent e, err_error e)) (errors (fst (snd (run_agent E pid cfg name st w))))
             = map (\<lambda>e. (err_agent e, err_error e)) (errors st)
               @ [(name, or_else (error result) ''Unknown error''),
                  (name, ''Agent '' @ name @ '' failed: '' @ template (error result))]
         \<and> lifecycle (snd (snd (run_agent E pid cfg name st w)))
             = lifecycle w
               @ [AgentStarted pid name,
                  AgentError pid name (''Agent '' @ name @ '' failed: '' @ template (error result))]"
  using run_agent_outcome [OF agent, of pid cfg st w] bad by simp

lemma step_ok_errors:
  assumes agent: "agents E name = Some agent"
    and good: "\<And>w'. \<exists>result. fst (agent pid cfg (agentOutputs st) w') = Inr result \<and> success result"
  shows "errors (fst (snd (run_agent E pid cfg name st w))) = errors st"
proof -
  let ?w2 = "emit (AgentStarted pid name) (updateProjectState E pid (st\<lparr>currentAgent := Some name\<rparr>) w)"
  from good [of ?w2] obtain result where
    "fst (agent pid cfg (agentOutputs st) ?w2) = Inr result" "success result"
    by blast
  then show ?thesis
    using run_agent_outcome_all [OF agent, of pid cfg st w] by simp
qed

lemma frontend_failing_run:
  assumes req_ok: "\<And>n. ai_success (gemini E n (RequirementPrompt cfg))"
    and front_bad: "\<And>n spec. gemini E n (FrontendPrompt spec cfg) = failed_reply msg"
    and msg: "msg \<noteq> []"
  shows "fst (run_agents E pid cfg agentConfigs initialState w)
           = Some (''Agent Frontend failed: '' @ msg)
         \<and> completedAgents (fst (snd (run_agents E pid cfg agentConfigs initialState w)))
             = [''Requirement'']
         \<and> map (\<lambda>e. (err_agent e, err_error e))
               (errors (fst (snd (run_agents E pid cfg agentConfigs initialState w))))
             = [(''Frontend'', msg), (''Frontend'', ''Agent Frontend failed: '' @ msg)]
         \<and> lifecycle (snd (snd (run_agents E pid cfg agentConfigs initialState w)))
             = lifecycle w
               @ [AgentStarted pid ''Requirement'', AgentCompleted pid ''Requirement'',
                  AgentStarted pid ''Frontend'',
                  AgentError pid ''Frontend'' (''Agent Frontend failed: '' @ msg)]"
proof -
  define c1 c2 rest where
    "c1 = \<lparr>agent_name = ''Requirement'', agent_description = ''Parse user requirements'',
           dependencies = []\<rparr>"
    and "c2 = \<lparr>agent_name = ''Frontend'', agent_description = ''Generate frontend code'',
           dependencies = [''Requirement'']\<rparr>"
    and "rest = drop 2 agentConfigs"
  have cfgs: "agentConfigs = c1 # c2 # rest"
    by (simp add: agentConfigs_def c1_def c2_def rest_def)
  have names [simp]: "agent_name c1 = ''Requirement''" "agent_name c2 = ''Frontend''"
    "dependencies c1 = []" "dependencies c2 = [''Requirement'']"
    by (simp_all add: c1_def c2_def)
  define st0 where "st0 = initialState"
  have s0: "completedAgents st0 = []" "errors st0 = []"
    by (simp_all add: st0_def initialState_def)
  \<comment> \<open>Requirement\<close>
  have good1: "\<exists>result. fst (returned (RequirementAgent_execute E ''Requirement'' pid cfg
                   (agentOutputs st0) w')) = Inr result \<and> success result \<and> res_output result \<noteq> None"
    for w'
    by (simp add: returned_def requirement_result req_ok)
  define st1 w1 where "st1 = fst (snd (run_agent E pid cfg ''Requirement'' st0 w))"
    and "w1 = snd (snd (run_agent E pid cfg ''Requirement'' st0 w))"
  from step_ok [OF agents_simps(1), where pid = pid and cfg = cfg and st = st0
      and P = "\<lambda>out. out \<noteq> None" and w = w, OF good1]
  have r1: "fst (run_agent E pid cfg ''Requirement'' st0 w) = None"
    and s1: "completedAgents st1 = [''Requirement'']"
    and l1: "lifecycle w1 = lifecycle w @ [AgentStarted pid ''Requirement'', AgentCompleted pid ''Requirement'']"
    and o1: "lookup_output (agentOutputs st1) ''Requirement'' \<noteq> None"
    by (auto simp: st1_def w1_def s0)
  have good1': "\<exists>result. fst (returned (RequirementAgent_execute E ''Requirement'' pid cfg
                   (agentOutputs st0) w')) = Inr result \<and> success result" for w'
    using good1 [of w'] by blast
  have e1: "errors st1 = []"
    using step_ok_errors [OF agents_simps(1), where pid = pid and cfg = cfg and st = st0 and w = w,
        OF good1']
    by (simp add: st1_def s0)
  have n1: "run_agents E pid cfg (c1 # c2 # rest) st0 w = run_agents E pid cfg (c2 # rest) st1 w1"
    using run_agents_Cons_next [of c1 st0 E pid cfg w] r1
    by (simp add: s0 dependenciesMet_def st1_def w1_def)
  \<comment> \<open>Frontend\<close>
  from o1 obtain req where req: "lookup_output (agentOutputs st1) ''Requirement'' = Some req"
    by blast
  have bad2: "fst (returned (FrontendAgent_execute E ''Frontend'' pid cfg (agentOutputs st1) w'))
                = Inr (failed msg)" for w'
    using msg by (simp add: returned_def frontend_result [OF req] front_bad failed_reply_def or_else_def)
  note f = step_failed [OF agents_simps(2), where pid = pid and cfg = cfg and st = st1 and w = w1
      and result = "failed msg", OF bad2]
  have r2: "fst (run_agent E pid cfg ''Frontend'' st1 w1) = Some (''Agent Frontend failed: '' @ msg)"
    using f msg by (simp add: failed_def template_def)
  have n2: "run_agents E pid cfg (c2 # rest) st1 w1 = run_agent E pid cfg ''Frontend'' st1 w1"
    using run_agents_Cons_thrown [of c2 st1 E pid cfg w1 _ rest] r2
    by (simp add: s1 dependenciesMet_def)
  have "run_agents E pid cfg agentConfigs initialState w = run_agent E pid cfg ''Frontend'' st1 w1"
    by (simp only: cfgs st0_def [symmetric] n1 n2)
  then show ?thesis
    using f msg by (simp add: failed_def template_def or_else_def s1 e1 l1)
qed


lemma pipeline_status:
  assumes "getProject pid w = Some p"
  shows "status_of pid (snd (executeAgentPipeline E pid p' w))
           = (if fst (executeAgentPipeline E pid p' w) = None then Some ''completed''
              else Some (status p))"
proof -
  obtain r st' w' where run:
    "run_agents E pid (config p') agentConfigs
       (case state p' of None \<Rightarrow> initialState | Some st \<Rightarrow> st) w = (r, st', w')"
    by (metis prod_cases3)
  from run_agents_kept [OF run assms] obtain q where "getProject pid w' = Some q" "status q = status p"
    by blast
  then show ?thesis
    by (cases r) (simp_all add: executeAgentPipeline_def run status_of_def)
qed

lemma resumeProject_eq:
  assumes "getProject pid w = Some p"
  shows "resumeProject E pid w
           = executeAgentPipeline E pid
               (p\<lparr>status := ''running'', updatedAt := clock E (ticks w)\<rparr>)
               (emit (ProjectResumed pid) (updateProjectStatus E pid ''running'' w))"
  using assms by (simp add: resumeProject_def Let_def stored_def)

lemma resumeProject_status:
  assumes "getProject pid w \<noteq> None"
  shows "status_of pid (snd (resumeProject E pid w))
           = (if fst (resumeProject E pid w) = None then Some ''completed'' else Some ''running'')"
proof -
  from assms obtain p where p: "getProject pid w = Some p" by blast
  let ?w2 = "emit (ProjectResumed pid) (updateProjectStatus E pid ''running'' w)"
  have "getProject pid ?w2 = Some (p\<lparr>status := ''running'', updatedAt := clock E (ticks w)\<rparr>)"
    using p by simp
  from pipeline_status [OF this] show ?thesis
    unfolding resumeProject_eq [OF p] by simp
qed

lemma run_state_of:
  assumes run: "run_agents E pid cfg cfgs st w = (r, st', w')" and sy: "synced pid st w"
    and ne: "completedAgents st' \<noteq> []"
  shows "state_of pid w' = Some st'"
proof -
  from run_agents_synced [OF run sy] obtain p' where p': "getProject pid w' = Some p'"
    "st' = (case state p' of None \<Rightarrow> initialState | Some s \<Rightarrow> s)"
    by (auto simp: synced_def split: option.splits)
  have "state p' = Some st'"
    using p'(2) ne by (cases "state p'") (auto simp: initialState_def)
  then show ?thesis
    by (simp add: state_of_def p')
qed

lemma start_failing:
  assumes p: "getProject pid w = Some p"
    and req_ok: "\<And>n. ai_success (gemini E n (RequirementPrompt (config p)))"
    and front_bad: "\<And>n spec. gemini E n (FrontendPrompt spec (config p)) = failed_reply msg"
    and msg: "msg \<noteq> []"
  shows "status_of pid (startProject E pid w) = Some ''error''
         \<and> map_option (\<lambda>st. map (\<lambda>e. (err_agent e, err_error e)) (errors st))
               (state_of pid (startProject E pid w))
             = Some [(''Frontend'', msg), (''Frontend'', ''Agent Frontend failed: '' @ msg)]
         \<and> lifecycle (startProject E pid w)
             = lifecycle w
               @ [ProjectStarted pid,
                  AgentStarted pid ''Requirement'', AgentCompleted pid ''Requirement'',
                  AgentStarted pid ''Frontend'',
                  AgentError pid ''Frontend'' (''Agent Frontend failed: '' @ msg),
                  ProjectError pid (''Agent Frontend failed: '' @ msg)]"
proof -
  define w3 where "w3 = emit (ProjectStarted pid)
               (updateProjectState E pid initialState (updateProjectStatus E pid ''running'' w))"
  define run where "run = run_agents E pid (config p) agentConfigs initialState w3"
  have l3: "lifecycle w3 = lifecycle w @ [ProjectStarted pid]"
    by (simp add: w3_def)
  have sy0: "synced pid initialState w3"
    using p by (simp add: synced_def w3_def)
  note bad = frontend_failing_run [of E "config p" msg pid w3, OF req_ok front_bad msg, folded run_def]
  have run_eq: "run_agents E pid (config p) agentConfigs initialState w3
                  = (fst run, fst (snd run), snd (snd run))"
    by (simp add: run_def)
  have st: "state_of pid (snd (snd run)) = Some (fst (snd run))"
    using run_state_of [OF run_eq sy0] bad by simp
  from run_agents_kept [OF run_eq] sy0 obtain q where q: "getProject pid (snd (snd run)) = Some q"
    by (auto simp: synced_def split: option.splits)
  have eq: "startProject E pid w
              = emit (ProjectError pid (''Agent Frontend failed: '' @ msg))
                  (updateProjectStatus E pid ''error'' (snd (snd run)))"
    using bad unfolding startProject_eq [OF p] w3_def [symmetric] run_def [symmetric]
    by (simp only: conjunct1 option.case)
  have 1: "status_of pid (startProject E pid w) = Some ''error''"
    unfolding eq by (simp add: status_of_def q)
  have 2: "map_option (\<lambda>st. map (\<lambda>e. (err_agent e, err_error e)) (errors st))
               (state_of pid (startProject E pid w))
             = Some [(''Frontend'', msg), (''Frontend'', ''Agent Frontend failed: '' @ msg)]"
    unfolding eq using bad by (simp add: st)
  have 3: "lifecycle (startProject E pid w)
             = lifecycle (snd (snd run)) @ [ProjectError pid (''Agent Frontend failed: '' @ msg)]"
    unfolding eq by simp
  show ?thesis
    using 1 2 3 bad by (simp add: l3)
qed

lemma resume_failing:
  assumes p: "getProject pid w = Some p" and fresh: "state p = None"
    and req_ok: "\<And>n. ai_success (gemini E n (RequirementPrompt (config p)))"
    and front_bad: "\<And>n spec. gemini E n (FrontendPrompt spec (config p)) = failed_reply msg"
    and msg: "msg \<noteq> []"
  shows "fst (resumeProject E pid w) = Some (''Agent Frontend failed: '' @ msg)
         \<and> status_of pid (snd (resumeProject E pid w)) = Some ''running''
         \<and> lifecycle (snd (resumeProject E pid w))
             = lifecycle w
               @ [ProjectResumed pid,
                  AgentStarted pid ''Requirement'', AgentCompleted pid ''Requirement'',
                  AgentStarted pid ''Frontend'',
                  AgentError pid ''Frontend'' (''Agent Frontend failed: '' @ msg)]"
proof -
  define w2 where "w2 = emit (ProjectResumed pid) (updateProjectStatus E pid ''running'' w)"
  define run where "run = run_agents E pid (config p) agentConfigs initialState w2"
  have l2: "lifecycle w2 = lifecycle w @ [ProjectResumed pid]"
    by (simp add: w2_def)
  note bad = frontend_failing_run [of E "config p" msg pid w2, OF req_ok front_bad msg, folded run_def]
  have eq: "resumeProject E pid w = (Some (''Agent Frontend failed: '' @ msg), snd (snd run))"
    using bad unfolding resumeProject_eq [OF p] w2_def [symmetric] executeAgentPipeline_def
    by (simp add: fresh run_def [symmetric] split_beta)
  have "status_of pid (snd (resumeProject E pid w)) = Some ''running''"
    using resumeProject_status [of pid w E] p by (simp add: eq)
  then show ?thesis
    using bad by (simp add: eq l2)
qed

lemma sample_bad_env_replies:
  "ai_success (gemini sample_bad_env n (RequirementPrompt cfg))"
  "gemini sample_bad_env n (FrontendPrompt spec cfg) = failed_reply ''quota exceeded''"
  by (simp_all add: sample_bad_env_def sample_env_def ok_reply_def)

lemma sample_paused_project:
  "getProject ''0'' (pauseProject sample_bad_env ''0'' sample_created)
     = Some \<lparr>project_id = ''0'', project_name = ''landing'',
             project_description = ''A landing page'', config = sample_config,
             status = ''paused'', state = None, createdAt = 1000,
             updatedAt = clock sample_bad_env (ticks sample_created)\<rparr>"
  by (simp add: pauseProject_def sample_created_project)

lemma lifecycle_sample_created: "lifecycle sample_created = []"
  by (simp add: sample_created_def lifecycle_def createProject_def Let_def MemStorage_new_def)

text \<open>
  Claim C1, the stored status after a failure. The sample project is created, paused, and
  resumed while the request of the Frontend stage fails. The call rejects with the failure
  of that stage, and the stored status is still \<open>running\<close>: no failure of the run is
  announced after the failure of the stage. Started under the same conditions, the same
  project ends in status \<open>error\<close> and the failure of the run is announced.
\<close>

theorem C1_resume_failure_keeps_running:
  "fst (resumeProject sample_bad_env ''0'' (pauseProject sample_bad_env ''0'' sample_created))
     = Some ''Agent Frontend failed: quota exceeded''
   \<and> status_of ''0''
       (snd (resumeProject sample_bad_env ''0'' (pauseProject sample_bad_env ''0'' sample_created)))
     = Some ''running''
   \<and> lifecycle
       (snd (resumeProject sample_bad_env ''0'' (pauseProject sample_bad_env ''0'' sample_created)))
     = [ProjectPaused ''0'', ProjectResumed ''0'',
        AgentStarted ''0'' ''Requirement'', AgentCompleted ''0'' ''Requirement'',
        AgentStarted ''0'' ''Frontend'',
        AgentError ''0'' ''Frontend'' ''Agent Frontend failed: quota exceeded'']
   \<and> status_of ''0'' (startProject sample_bad_env ''0'' sample_created) = Some ''error''
   \<and> lifecycle (startProject sample_bad_env ''0'' sample_created)
     = [ProjectStarted ''0'',
        AgentStarted ''0'' ''Requirement'', AgentCompleted ''0'' ''Requirement'',
        AgentStarted ''0'' ''Frontend'',
        AgentError ''0'' ''Frontend'' ''Agent Frontend failed: quota exceeded'',
        ProjectError ''0'' ''Agent Frontend failed: quota exceeded'']"
proof -
  have r: "lifecycle (pauseProject sample_bad_env ''0'' sample_created) = [ProjectPaused ''0'']"
    by (simp add: pauseProject_def lifecycle_sample_created)
  note a = resume_failing [OF sample_paused_project, where E = sample_bad_env
      and msg = "''quota exceeded''"]
  note b = start_failing [OF sample_created_project, where E = sample_bad_env
      and msg = "''quota exceeded''"]
  show ?thesis
    using a b by (simp add: sample_bad_env_replies r lifecycle_sample_created)
qed

text \<open>
  Claim C2, the error entries of a failed stage. The sample project is started while the
  request of the Frontend stage fails. The execution state stored afterwards holds two
  entries for the Frontend stage, the first with the failure the stage reported and the
  second with the message of the error raised for it, where the claim has exactly one.
\<close>

theorem C2_failure_recorded_twice:
  "map_option (\<lambda>st. map (\<lambda>e. (err_agent e, err_error e)) (errors st))
     (state_of ''0'' (startProject sample_bad_env ''0'' sample_created))
     = Some [(''Frontend'', ''quota exceeded''),
             (''Frontend'', ''Agent Frontend failed: quota exceeded'')]"
proof -
  note b = start_failing [OF sample_created_project, where E = sample_bad_env
      and msg = "''quota exceeded''"]
  show ?thesis
    using b by (simp add: sample_bad_env_replies)
qed









end
